theory Spec2Isabelle
  imports Complex_Main
begin

section \<open>Numbers\<close>

text \<open>
  The three engines compute on IEEE doubles (JavaScript \<open>number\<close>, Swift \<open>Double\<close> and
  \<open>Float\<close>). Throughout this development a finite number is a real number and arithmetic
  is exact: rounding, overflow and infinities are outside the model. The one non-finite value
  that the sample-accurate processor can produce from finite inputs, \<open>NaN\<close> (a remainder by
  zero), is kept as a value of its own, with JavaScript's rules: every arithmetic operation on
  \<open>NaN\<close> gives \<open>NaN\<close> and every comparison with \<open>NaN\<close> is false.
\<close>

datatype jsnum = Num real | NaN

fun js_plus :: "jsnum \<Rightarrow> jsnum \<Rightarrow> jsnum" where
  "js_plus (Num a) (Num b) = Num (a + b)"
| "js_plus _ _ = NaN"

fun js_minus :: "jsnum \<Rightarrow> jsnum \<Rightarrow> jsnum" where
  "js_minus (Num a) (Num b) = Num (a - b)"
| "js_minus _ _ = NaN"

fun js_times :: "jsnum \<Rightarrow> jsnum \<Rightarrow> jsnum" where
  "js_times (Num a) (Num b) = Num (a * b)"
| "js_times _ _ = NaN"

fun js_divide :: "jsnum \<Rightarrow> real \<Rightarrow> jsnum" where
  "js_divide (Num a) b = Num (a / b)"
| "js_divide NaN b = NaN"

text \<open>Conversion of a real to an integer by truncation toward zero.\<close>

definition trunc :: "real \<Rightarrow> int" where
  "trunc x = (if 0 \<le> x then \<lfloor>x\<rfloor> else \<lceil>x\<rceil>)"

text \<open>JavaScript's \<open>%\<close>: the remainder takes the sign of the dividend; by zero it is \<open>NaN\<close>.\<close>

fun js_rem :: "jsnum \<Rightarrow> real \<Rightarrow> jsnum" where
  "js_rem (Num x) y = (if y = 0 then NaN else Num (x - y * of_int (trunc (x / y))))"
| "js_rem NaN y = NaN"

text \<open>\<open>Math.floor\<close>: an integer, or \<open>None\<close> for \<open>NaN\<close>.\<close>

fun js_floor :: "jsnum \<Rightarrow> int option" where
  "js_floor (Num x) = Some \<lfloor>x\<rfloor>"
| "js_floor NaN = None"

fun of_floor :: "int option \<Rightarrow> jsnum" where
  "of_floor (Some i) = Num (of_int i)"
| "of_floor None = NaN"

text \<open>\<open>a >= b\<close> and \<open>a < b\<close> for the result of \<open>Math.floor\<close> against a finite number.\<close>

fun floor_ge :: "int option \<Rightarrow> real \<Rightarrow> bool" where
  "floor_ge (Some i) b = (b \<le> of_int i)"
| "floor_ge None b = False"

fun floor_lt :: "int option \<Rightarrow> real \<Rightarrow> bool" where
  "floor_lt (Some i) b = (of_int i < b)"
| "floor_lt None b = False"

text \<open>\<open>a !== b\<close> on numbers: \<open>NaN\<close> differs from everything, itself included.\<close>

fun strict_ne :: "int option \<Rightarrow> int option \<Rightarrow> bool" where
  "strict_ne (Some a) (Some b) = (a \<noteq> b)"
| "strict_ne _ _ = True"

text \<open>The mathematical remainder that the specification writes \<open>x mod y\<close>.\<close>

definition rmod :: "real \<Rightarrow> real \<Rightarrow> real" where
  "rmod x y = x - y * of_int \<lfloor>x / y\<rfloor>"


section \<open>The sample-accurate loop processor (public/loop-processor.js)\<close>

subsection \<open>Data\<close>

text \<open>
  An \<open>AudioBuffer\<close> is its list of channel arrays. \<open>getChannelData\<close> throws an
  \<open>IndexSizeError\<close> for a channel the buffer does not have; reading an element of a typed
  array outside its range gives \<open>undefined\<close> (\<open>None\<close>) and does not throw.
\<close>

type_synonym audio_buffer = "real list list"

datatype js_error = IndexSizeError | TypeError

definition numberOfChannels :: "audio_buffer \<Rightarrow> nat" where
  "numberOfChannels b = length b"

definition buffer_length :: "audio_buffer \<Rightarrow> nat" where
  "buffer_length b = (case b of [] \<Rightarrow> 0 | c # _ \<Rightarrow> length c)"

definition getChannelData :: "audio_buffer \<Rightarrow> nat \<Rightarrow> js_error + real list" where
  "getChannelData b channel =
     (if channel < numberOfChannels b then Inr (b ! channel) else Inl IndexSizeError)"

fun arrayGet :: "real list \<Rightarrow> int option \<Rightarrow> real option" where
  "arrayGet xs (Some i) = (if 0 \<le> i \<and> i < int (length xs) then Some (xs ! nat i) else None)"
| "arrayGet xs None = None"

text \<open>\<open>v || 0\<close> on a sample read: \<open>undefined\<close> becomes 0.\<close>

fun orZero :: "real option \<Rightarrow> real" where
  "orZero (Some v) = v"
| "orZero None = 0"

text \<open>Every channel of a decoded buffer holds the same number of frames.\<close>

definition wf_buffer :: "audio_buffer \<Rightarrow> bool" where
  "wf_buffer b = list_all (\<lambda>c. length c = buffer_length b) b"

datatype out_message = TIME_UPDATE jsnum jsnum | CURRENT_TIME jsnum jsnum

datatype in_message =
    SET_BUFFER audio_buffer
  | PLAY
  | PAUSE
  | SEEK real
  | SET_LOOP_POINTS real real
  | SET_LOOPING bool
  | SET_PLAYBACK_RATE real
  | SET_VOLUME real
  | GET_CURRENT_TIME

record processor =
  sampleRate :: real
  isPlaying :: bool
  isLooping :: bool
  playbackRate :: real
  volume :: real
  loopStartSample :: real
  loopEndSample :: real
  currentSample :: jsnum
  audioBuffer :: "audio_buffer option"
  bufferChannels :: nat
  bufferLength :: nat
  crossfadeSamples :: int
  posted :: "out_message list"

text \<open>The constructor; \<open>sr\<close> is the global \<open>sampleRate\<close> of the audio worklet scope.\<close>

definition new_processor :: "real \<Rightarrow> processor" where
  "new_processor sr =
     \<lparr> sampleRate = sr, isPlaying = False, isLooping = False, playbackRate = 1, volume = 1,
       loopStartSample = 0, loopEndSample = 0, currentSample = Num 0, audioBuffer = None,
       bufferChannels = 0, bufferLength = 0, crossfadeSamples = \<lfloor>sr * (1 / 1000)\<rfloor>,
       posted = [] \<rparr>"

subsection \<open>Commands\<close>

definition setBuffer :: "audio_buffer \<Rightarrow> processor \<Rightarrow> processor" where
  "setBuffer bufferData s =
     s\<lparr> audioBuffer := Some bufferData,
        bufferChannels := numberOfChannels bufferData,
        bufferLength := buffer_length bufferData \<rparr>"

definition proc_play :: "processor \<Rightarrow> processor" where
  "proc_play s = s\<lparr> isPlaying := True \<rparr>"

definition proc_pause :: "processor \<Rightarrow> processor" where
  "proc_pause s = s\<lparr> isPlaying := False \<rparr>"

definition proc_seek :: "real \<Rightarrow> processor \<Rightarrow> processor" where
  "proc_seek sample s =
     s\<lparr> currentSample := Num (max 0 (min sample (real (bufferLength s) - 1))) \<rparr>"

definition proc_setLoopPoints :: "real \<Rightarrow> real \<Rightarrow> processor \<Rightarrow> processor" where
  "proc_setLoopPoints startSample endSample s =
     s\<lparr> loopStartSample := startSample, loopEndSample := endSample \<rparr>"

fun handleMessage :: "in_message \<Rightarrow> processor \<Rightarrow> processor" where
  "handleMessage (SET_BUFFER b) s = setBuffer b s"
| "handleMessage PLAY s = proc_play s"
| "handleMessage PAUSE s = proc_pause s"
| "handleMessage (SEEK sample) s = proc_seek sample s"
| "handleMessage (SET_LOOP_POINTS a b) s = proc_setLoopPoints a b s"
| "handleMessage (SET_LOOPING enabled) s = s\<lparr> isLooping := enabled \<rparr>"
| "handleMessage (SET_PLAYBACK_RATE rate) s = s\<lparr> playbackRate := rate \<rparr>"
| "handleMessage (SET_VOLUME v) s = s\<lparr> volume := v \<rparr>"
| "handleMessage GET_CURRENT_TIME s =
     s\<lparr> posted := posted s @
          [CURRENT_TIME (currentSample s) (js_divide (currentSample s) (sampleRate s))] \<rparr>"

subsection \<open>Interpolation\<close>

definition getInterpolatedSample ::
    "processor \<Rightarrow> int option \<Rightarrow> jsnum \<Rightarrow> nat \<Rightarrow> js_error + jsnum" where
  "getInterpolatedSample s sampleIndex fraction channel =
     (case audioBuffer s of
        None \<Rightarrow> Inr (Num 0)
      | Some b \<Rightarrow>
          if floor_ge sampleIndex (real (bufferLength s) - 1) then Inr (Num 0)
          else
            (case getChannelData b channel of
               Inl e \<Rightarrow> Inl e
             | Inr channelData \<Rightarrow>
                 let sample1 = orZero (arrayGet channelData sampleIndex);
                     sample2 = orZero (arrayGet channelData (map_option (\<lambda>i. i + 1) sampleIndex))
                 in Inr (js_plus (Num sample1) (js_times (Num (sample2 - sample1)) fraction))))"

subsection \<open>The block callback\<close>

type_synonym block = "jsnum list list"

text \<open>
  The inner loop \<open>for (channel = 0; channel < channelCount; channel++)\<close>: the value
  computed for the channel is stored at \<open>output[channel][sample]\<close>. An exception thrown
  by the computation leaves the loop.
\<close>

primrec forChannels ::
    "nat \<Rightarrow> (nat \<Rightarrow> js_error + jsnum) \<Rightarrow> nat \<Rightarrow> block \<Rightarrow> js_error + block" where
  "forChannels 0 f sample out = Inr out"
| "forChannels (Suc n) f sample out =
     (case forChannels n f sample out of
        Inl e \<Rightarrow> Inl e
      | Inr out' \<Rightarrow>
          (case f n of
             Inl e \<Rightarrow> Inl e
           | Inr v \<Rightarrow> Inr (out'[n := (out' ! n)[sample := v]])))"

text \<open>The right-hand side of the assignment to \<open>this.currentSample\<close> at a loop boundary.\<close>

definition wrapCursor :: "processor \<Rightarrow> jsnum" where
  "wrapCursor s =
     (let loopLength = loopEndSample s - loopStartSample s
      in js_plus (Num (loopStartSample s))
           (js_rem (js_minus (currentSample s) (Num (loopEndSample s))) loopLength))"

definition scaled :: "real \<Rightarrow> js_error + jsnum \<Rightarrow> js_error + jsnum" where
  "scaled vol r = (case r of Inl e \<Rightarrow> Inl e | Inr channelSample \<Rightarrow> Inr (js_times channelSample (Num vol)))"

text \<open>One iteration of \<open>for (sample = 0; sample < outputLength; sample++)\<close>.\<close>

definition processFrame ::
    "nat \<Rightarrow> nat \<Rightarrow> processor \<times> block \<Rightarrow> js_error + processor \<times> block" where
  "processFrame channelCount sample sb =
     (let s = fst sb; out = snd sb;
          currentSampleInt = js_floor (currentSample s);
          fraction = js_minus (currentSample s) (of_floor currentSampleInt);
          r =
            (if isLooping s \<and> 0 < loopEndSample s \<and> floor_ge currentSampleInt (loopEndSample s)
             then
               let s1 = s\<lparr> currentSample := wrapCursor s \<rparr>;
                   newSampleInt = js_floor (currentSample s1);
                   newFraction = js_minus (currentSample s1) (of_floor newSampleInt)
               in (s1, forChannels channelCount
                     (\<lambda>channel. scaled (volume s1)
                        (getInterpolatedSample s1 newSampleInt newFraction channel)) sample out)
             else if floor_lt currentSampleInt (real (bufferLength s)) then
               (s, forChannels channelCount
                     (\<lambda>channel. scaled (volume s)
                        (getInterpolatedSample s currentSampleInt fraction channel)) sample out)
             else
               (s, forChannels channelCount (\<lambda>channel. Inr (Num 0)) sample out))
      in case snd r of
           Inl e \<Rightarrow> Inl e
         | Inr out' \<Rightarrow>
             Inr ((fst r)\<lparr> currentSample :=
                    js_plus (currentSample (fst r)) (Num (playbackRate (fst r))) \<rparr>, out'))"

primrec forSamples ::
    "nat \<Rightarrow> nat \<Rightarrow> processor \<times> block \<Rightarrow> js_error + processor \<times> block" where
  "forSamples channelCount 0 sb = Inr sb"
| "forSamples channelCount (Suc n) sb =
     (case forSamples channelCount n sb of
        Inl e \<Rightarrow> Inl e
      | Inr sb' \<Rightarrow> processFrame channelCount n sb')"

text \<open>The periodic time notification sent after the frames of a block.\<close>

definition timeUpdate :: "nat \<Rightarrow> processor \<Rightarrow> processor" where
  "timeUpdate outputLength s =
     (if strict_ne
           (js_floor (js_times (js_divide (currentSample s) (sampleRate s)) (Num 10)))
           (js_floor (js_times
              (js_divide (js_minus (currentSample s) (Num (real outputLength * playbackRate s)))
                 (sampleRate s)) (Num 10)))
      then s\<lparr> posted := posted s @
             [TIME_UPDATE (currentSample s) (js_divide (currentSample s) (sampleRate s))] \<rparr>
      else s)"

text \<open>
  \<open>process\<close> on the first output \<open>outputs[0]\<close>. The result is the new state, the output
  block and the returned flag, or the exception that left the callback.
\<close>

definition process :: "processor \<Rightarrow> block \<Rightarrow> js_error + processor \<times> block \<times> bool" where
  "process s output =
     (if \<not> isPlaying s \<or> audioBuffer s = None \<or> length output = 0 then Inr (s, output, True)
      else
        let outputLength = length (output ! 0);
            channelCount = min (length output) (bufferChannels s)
        in case forSamples channelCount outputLength (s, output) of
             Inl e \<Rightarrow> Inl e
           | Inr sb \<Rightarrow> Inr (timeUpdate outputLength (fst sb), snd sb, True))"



subsection \<open>The invariant of the processor state\<close>

text \<open>
  \<open>setBuffer\<close> is the only assignment to the buffer and to the two cached sizes, so they
  agree in every state; the buffer itself is a decoded \<open>AudioBuffer\<close>.
\<close>

definition proc_inv :: "processor \<Rightarrow> bool" where
  "proc_inv s =
     (case audioBuffer s of
        None \<Rightarrow> True
      | Some b \<Rightarrow>
          wf_buffer b \<and> bufferChannels s = numberOfChannels b \<and> bufferLength s = buffer_length b)"

fun msg_ok :: "in_message \<Rightarrow> bool" where
  "msg_ok (SET_BUFFER b) = wf_buffer b"
| "msg_ok _ = True"

subsection \<open>Silent frames\<close>

text \<open>
  \<open>silentFrom cc k0 n out1 out'\<close>: the block \<open>out'\<close> holds 0 in the frames \<open>k0, ..., n - 1\<close>
  of its first \<open>cc\<close> channels and agrees with \<open>out1\<close> in every other frame.
\<close>

definition silentFrom :: "nat \<Rightarrow> nat \<Rightarrow> nat \<Rightarrow> block \<Rightarrow> block \<Rightarrow> bool" where
  "silentFrom cc k0 n out1 out' \<longleftrightarrow>
     (\<forall>ch k. ch < cc \<and> ch < length out1 \<and> k0 \<le> k \<and> k < n \<and> k < length (out1 ! ch)
        \<longrightarrow> out' ! ch ! k = Num 0) \<and>
     (\<forall>ch k. k < k0 \<or> n \<le> k \<longrightarrow> out' ! ch ! k = out1 ! ch ! k)"

section \<open>The buffer-scheduling looper (class WebAudioLooper)\<close>

subsection \<open>Data\<close>

text \<open>
  The audio graph is the list of the buffer source nodes created so far; a node is named by
  its index. A node records the rate it was created with, the arguments of its \<open>start\<close>
  call (when, offset, duration), whether \<open>stop\<close> was called on it, whether an \<open>onended\<close>
  handler is installed and whether the graph has delivered its \<open>ended\<close> event. The engine
  clock \<open>audioContext.currentTime\<close> is an argument (\<open>now\<close>) of every operation that reads
  it. \<open>start\<close> and \<open>stop\<close> are recorded as calls; the range errors that the audio graph
  raises for them are outside the model, and so is a division by a zero rate.
\<close>

record source_node =
  srcPlaybackRate :: real
  srcStart :: "(real \<times> jsnum \<times> jsnum) option"
  srcStopped :: bool
  srcOnended :: bool
  srcEndedFired :: bool

datatype raf_callback = ScheduleBuffersAhead | UpdateTime

datatype ui_event = TimeUpdate jsnum | Ended

record looper =
  audioContext :: bool
  contextSuspended :: bool
  audioBuffer_w :: "real option"
  gainNode :: "real option"
  sources :: "source_node list"
  currentSource :: "nat option"
  nextSource :: "nat option"
  startTime :: real
  pausedAt :: jsnum
  isPlaying_w :: bool
  loopStart :: real
  loopEnd :: real
  playbackRate_w :: real
  onTimeUpdate :: bool
  onEnded :: bool
  animationFrame :: nat
  isLooping_w :: bool
  nextStartTime :: real
  loopStartSample_w :: real
  loopEndSample_w :: real
  loopDurationSamples :: real
  sampleRate_w :: real
  scheduleAheadTime :: real
  schedulingActive :: bool
  rafQueue :: "(nat \<times> raf_callback) list"
  rafNext :: nat
  emitted :: "ui_event list"

text \<open>
  A fresh instance. \<open>audioBuffer_w\<close> holds the duration of the decoded buffer;
  \<open>onTimeUpdate\<close> and \<open>onEnded\<close> say whether the callback is set; \<open>rafQueue\<close> holds the
  callbacks registered with \<open>requestAnimationFrame\<close> and not yet run, each with its id;
  \<open>emitted\<close> lists the calls made to the two callbacks.
\<close>

definition new_looper :: looper where
  "new_looper =
     \<lparr> audioContext = False, contextSuspended = False, audioBuffer_w = None, gainNode = None,
       sources = [], currentSource = None, nextSource = None, startTime = 0, pausedAt = Num 0,
       isPlaying_w = False, loopStart = 0, loopEnd = 0, playbackRate_w = 1,
       onTimeUpdate = False, onEnded = False, animationFrame = 0, isLooping_w = False,
       nextStartTime = 0, loopStartSample_w = 0, loopEndSample_w = 0, loopDurationSamples = 0,
       sampleRate_w = 44100, scheduleAheadTime = 1 / 10, schedulingActive = False,
       rafQueue = [], rafNext = 1, emitted = [] \<rparr>"

text \<open>\<open>Math.round\<close>: the nearest integer, a half rounding up.\<close>

definition js_round :: "real \<Rightarrow> real" where
  "js_round x = of_int \<lfloor>x + 1 / 2\<rfloor>"

subsection \<open>The host: animation frames and source nodes\<close>

definition requestAnimationFrame :: "raf_callback \<Rightarrow> looper \<Rightarrow> nat \<times> looper" where
  "requestAnimationFrame cb s =
     (rafNext s, s\<lparr> rafQueue := rafQueue s @ [(rafNext s, cb)], rafNext := rafNext s + 1 \<rparr>)"

definition cancelAnimationFrame :: "nat \<Rightarrow> looper \<Rightarrow> looper" where
  "cancelAnimationFrame h s = s\<lparr> rafQueue := filter (\<lambda>e. fst e \<noteq> h) (rafQueue s) \<rparr>"

definition startSource :: "nat \<Rightarrow> real \<Rightarrow> jsnum \<Rightarrow> jsnum \<Rightarrow> looper \<Rightarrow> looper" where
  "startSource i when offset duration s =
     s\<lparr> sources := (sources s)[i := (sources s ! i)\<lparr> srcStart := Some (when, offset, duration) \<rparr>] \<rparr>"

definition stopSource :: "nat \<Rightarrow> looper \<Rightarrow> looper" where
  "stopSource i s = s\<lparr> sources := (sources s)[i := (sources s ! i)\<lparr> srcStopped := True \<rparr>] \<rparr>"

subsection \<open>Methods\<close>

definition initialize :: "looper \<Rightarrow> looper" where
  "initialize s = s\<lparr> audioContext := True, gainNode := Some 1 \<rparr>"

text \<open>\<open>loadAudio\<close> for a file that decodes to a buffer of the given duration.\<close>

definition loadAudio :: "real \<Rightarrow> real \<Rightarrow> looper \<Rightarrow> looper" where
  "loadAudio duration contextRate s =
     (let s1 = (if \<not> audioContext s then initialize s else s)
      in s1\<lparr> audioBuffer_w := Some duration, sampleRate_w := contextRate, loopEnd := duration \<rparr>)"

definition createSource :: "looper \<Rightarrow> nat option \<times> looper" where
  "createSource s =
     (if \<not> audioContext s \<or> audioBuffer_w s = None \<or> gainNode s = None then (None, s)
      else (Some (length (sources s)),
            s\<lparr> sources := sources s @
                 [\<lparr> srcPlaybackRate = playbackRate_w s, srcStart = None, srcStopped = False,
                    srcOnended = False, srcEndedFired = False \<rparr>] \<rparr>))"

definition setLoopPoints_w :: "real \<Rightarrow> real \<Rightarrow> looper \<Rightarrow> looper" where
  "setLoopPoints_w start end s =
     (let s1 = s\<lparr> loopStart := start, loopEnd := end \<rparr>;
          s2 = s1\<lparr> loopStartSample_w := js_round (start * sampleRate_w s1) \<rparr>;
          s3 = s2\<lparr> loopEndSample_w := js_round (end * sampleRate_w s2) \<rparr>
      in s3\<lparr> loopDurationSamples := loopEndSample_w s3 - loopStartSample_w s3 \<rparr>)"

definition setSourceRate :: "nat option \<Rightarrow> real \<Rightarrow> looper \<Rightarrow> looper" where
  "setSourceRate src rate s =
     (case src of
        None \<Rightarrow> s
      | Some i \<Rightarrow> s\<lparr> sources := (sources s)[i := (sources s ! i)\<lparr> srcPlaybackRate := rate \<rparr>] \<rparr>)"

definition setPlaybackRate :: "real \<Rightarrow> looper \<Rightarrow> looper" where
  "setPlaybackRate rate s =
     (let s1 = s\<lparr> playbackRate_w := rate \<rparr>;
          s2 = setSourceRate (currentSource s1) rate s1
      in setSourceRate (nextSource s2) rate s2)"

definition setVolume :: "real \<Rightarrow> looper \<Rightarrow> looper" where
  "setVolume v s = (if gainNode s \<noteq> None then s\<lparr> gainNode := Some v \<rparr> else s)"

definition setLooping :: "bool \<Rightarrow> looper \<Rightarrow> looper" where
  "setLooping enabled s = s\<lparr> isLooping_w := enabled \<rparr>"

definition setTimeUpdateCallback :: "looper \<Rightarrow> looper" where
  "setTimeUpdateCallback s = s\<lparr> onTimeUpdate := True \<rparr>"

definition setEndedCallback :: "looper \<Rightarrow> looper" where
  "setEndedCallback s = s\<lparr> onEnded := True \<rparr>"

definition getCurrentTime :: "real \<Rightarrow> looper \<Rightarrow> jsnum" where
  "getCurrentTime now s =
     (if \<not> audioContext s \<or> \<not> isPlaying_w s then pausedAt s
      else if isLooping_w s \<and> loopStart s < loopEnd s then
        let elapsedAudioTime = now - startTime s;
            elapsedSamples = of_int \<lfloor>elapsedAudioTime * sampleRate_w s * playbackRate_w s\<rfloor>;
            positionInLoopSamples = js_rem (Num elapsedSamples) (loopDurationSamples s);
            currentSample = js_plus (Num (loopStartSample_w s)) positionInLoopSamples
        in js_divide currentSample (sampleRate_w s)
      else js_plus (pausedAt s) (Num ((now - startTime s) * playbackRate_w s)))"

text \<open>
  The \<open>while\<close> loop of \<open>scheduleBuffersAhead\<close>. It need not end (a loop of zero duration
  never reaches the horizon), so its result is optional: \<open>None\<close> is a call that does not
  return.
\<close>

partial_function (option) scheduleLoop :: "real \<Rightarrow> real \<Rightarrow> looper \<Rightarrow> looper option" where
  "scheduleLoop currentAudioTime exactLoopDurationSeconds s =
     (if nextStartTime s < currentAudioTime + scheduleAheadTime s then
        (case createSource s of
           (None, s') \<Rightarrow> scheduleLoop currentAudioTime exactLoopDurationSeconds s'
         | (Some source, s') \<Rightarrow>
             scheduleLoop currentAudioTime exactLoopDurationSeconds
               ((startSource source (nextStartTime s') (Num (loopStart s'))
                   (Num exactLoopDurationSeconds) s')
                \<lparr> nextStartTime := nextStartTime s' + exactLoopDurationSeconds \<rparr>))
      else Some s)"

definition exactLoopDurationSeconds :: "looper \<Rightarrow> real" where
  "exactLoopDurationSeconds s = loopDurationSamples s / (sampleRate_w s * playbackRate_w s)"

definition scheduleBuffersAhead :: "real \<Rightarrow> looper \<Rightarrow> looper option" where
  "scheduleBuffersAhead now s =
     (if \<not> audioContext s \<or> \<not> schedulingActive s then Some s
      else
        (case scheduleLoop now (exactLoopDurationSeconds s) s of
           None \<Rightarrow> None
         | Some s' \<Rightarrow>
             Some (if schedulingActive s' then snd (requestAnimationFrame ScheduleBuffersAhead s')
                   else s')))"

definition startSampleAccurateLoop :: "real \<Rightarrow> looper \<Rightarrow> looper option" where
  "startSampleAccurateLoop now s =
     (if \<not> audioContext s \<or> \<not> isLooping_w s \<or> audioBuffer_w s = None then Some s
      else
        (case scheduleBuffersAhead now
                (s\<lparr> nextStartTime := now + scheduleAheadTime s, schedulingActive := True \<rparr>) of
           None \<Rightarrow> None
         | Some s' \<Rightarrow> Some (s'\<lparr> startTime := nextStartTime s', pausedAt := Num (loopStart s') \<rparr>)))"

definition updateTime :: "real \<Rightarrow> looper \<Rightarrow> looper" where
  "updateTime now s =
     (if isPlaying_w s then
        let currentTime = getCurrentTime now s;
            s1 = (if onTimeUpdate s then s\<lparr> emitted := emitted s @ [TimeUpdate currentTime] \<rparr>
                  else s);
            r = requestAnimationFrame UpdateTime s1
        in (snd r)\<lparr> animationFrame := fst r \<rparr>
      else s)"

text \<open>The handler that \<open>play\<close> installs as \<open>onended\<close> of the source it starts.\<close>

definition onended :: "looper \<Rightarrow> looper" where
  "onended s =
     (let s1 = s\<lparr> isPlaying_w := False, pausedAt := Num 0 \<rparr>
      in if onEnded s1 then s1\<lparr> emitted := emitted s1 @ [Ended] \<rparr> else s1)"

definition play :: "real \<Rightarrow> looper \<Rightarrow> looper option" where
  "play now s =
     (if \<not> audioContext s then Some s
      else
        (case audioBuffer_w s of
           None \<Rightarrow> Some s
         | Some bufferDuration \<Rightarrow>
             let s1 = s\<lparr> contextSuspended := False, isPlaying_w := True \<rparr>
             in if isLooping_w s1 \<and> loopStart s1 < loopEnd s1 then
                  map_option (updateTime now) (startSampleAccurateLoop now s1)
                else
                  (case createSource s1 of
                     (None, s2) \<Rightarrow> Some (s2\<lparr> currentSource := None \<rparr>)
                   | (Some src, s2) \<Rightarrow>
                       let s3 = s2\<lparr> currentSource := Some src \<rparr>;
                           offset = pausedAt s3;
                           duration = js_minus (Num bufferDuration) offset;
                           s4 = (startSource src 0 offset duration s3)\<lparr> startTime := now \<rparr>;
                           s5 = s4\<lparr> sources :=
                                  (sources s4)[src := (sources s4 ! src)\<lparr> srcOnended := True \<rparr>] \<rparr>
                       in Some (updateTime now s5))))"

definition stopAndClear :: "nat option \<Rightarrow> looper \<Rightarrow> looper" where
  "stopAndClear src s = (case src of None \<Rightarrow> s | Some i \<Rightarrow> stopSource i s)"

definition pause :: "real \<Rightarrow> looper \<Rightarrow> looper" where
  "pause now s =
     (let s1 = s\<lparr> schedulingActive := False \<rparr>;
          s2 = (stopAndClear (currentSource s1) s1)\<lparr> currentSource := None \<rparr>;
          s3 = (stopAndClear (nextSource s2) s2)\<lparr> nextSource := None \<rparr>;
          s4 = s3\<lparr> pausedAt := getCurrentTime now s3 \<rparr>;
          s5 = s4\<lparr> isPlaying_w := False \<rparr>
      in if animationFrame s5 \<noteq> 0 then cancelAnimationFrame (animationFrame s5) s5 else s5)"

definition seek_w :: "real \<Rightarrow> real \<Rightarrow> looper \<Rightarrow> looper option" where
  "seek_w time now s =
     (let wasPlaying = isPlaying_w s;
          s1 = (if wasPlaying then pause now s else s);
          s2 = s1\<lparr> pausedAt := Num time \<rparr>
      in if wasPlaying then play now s2 else Some s2)"

subsection \<open>Events delivered by the host\<close>

text \<open>
  The audio graph delivers the \<open>ended\<close> event of a source node once, to the handler
  installed on it, when the node stops playing: at the end of the duration it was started
  with, or when \<open>stop\<close> was called on it. The event is dispatched as a task of its own,
  after the method that called \<open>stop\<close> has returned.
\<close>

definition fireEnded :: "nat \<Rightarrow> looper \<Rightarrow> looper" where
  "fireEnded i s =
     (if i < length (sources s) \<and> \<not> srcEndedFired (sources s ! i) then
        let s1 = s\<lparr> sources := (sources s)[i := (sources s ! i)\<lparr> srcEndedFired := True \<rparr>] \<rparr>
        in if srcOnended (sources s ! i) then onended s1 else s1
      else s)"

text \<open>
  An animation frame runs the callbacks that were registered before it, in order; what they
  register runs in a later frame.
\<close>

definition runCallback :: "real \<Rightarrow> raf_callback \<Rightarrow> looper \<Rightarrow> looper option" where
  "runCallback now cb s =
     (case cb of
        ScheduleBuffersAhead \<Rightarrow> scheduleBuffersAhead now s
      | UpdateTime \<Rightarrow> Some (updateTime now s))"

primrec runCallbacks :: "real \<Rightarrow> raf_callback list \<Rightarrow> looper \<Rightarrow> looper option" where
  "runCallbacks now [] s = Some s"
| "runCallbacks now (cb # cbs) s =
     (case runCallback now cb s of None \<Rightarrow> None | Some s' \<Rightarrow> runCallbacks now cbs s')"

definition animationTick :: "real \<Rightarrow> looper \<Rightarrow> looper option" where
  "animationTick now s = runCallbacks now (map snd (rafQueue s)) (s\<lparr> rafQueue := [] \<rparr>)"


subsection \<open>The state after \<open>k\<close> loop segments\<close>

text \<open>
  \<open>loopSource s d j\<close> is the source node of the \<open>j\<close>-th segment that the scheduling loop
  creates from the state \<open>s\<close> with the segment duration \<open>d\<close>, and \<open>afterSegments s d k\<close>
  the state once \<open>k\<close> segments are scheduled. \<open>canCreateSource\<close> says that \<open>createSource\<close>
  returns a node.
\<close>

definition loopSource :: "looper \<Rightarrow> real \<Rightarrow> nat \<Rightarrow> source_node" where
  "loopSource s d j =
     \<lparr> srcPlaybackRate = playbackRate_w s,
       srcStart = Some (nextStartTime s + real j * d, Num (loopStart s), Num d),
       srcStopped = False, srcOnended = False, srcEndedFired = False \<rparr>"

definition afterSegments :: "looper \<Rightarrow> real \<Rightarrow> nat \<Rightarrow> looper" where
  "afterSegments s d k =
     s\<lparr> sources := sources s @ map (loopSource s d) [0..<k],
        nextStartTime := nextStartTime s + real k * d \<rparr>"

definition canCreateSource :: "looper \<Rightarrow> bool" where
  "canCreateSource s \<longleftrightarrow> audioContext s \<and> audioBuffer_w s \<noteq> None \<and> gainNode s \<noteq> None"


section \<open>The crossfading native looper (class NativeAudioLooperImpl)\<close>

subsection \<open>Data\<close>

text \<open>
  A PCM buffer is its list of channel arrays. An open audio file is its frame count, its
  processing format (channel count and sample rate) and its positioned read:
  \<open>fileRead start count\<close> is the buffer that \<open>file.framePosition = start\<close> followed by
  \<open>file.read(into:frameCount:)\<close> fills, or \<open>None\<close> when either throws.

  The player node is the queue of what is scheduled on it, whether it is playing, and the
  sample time that \<open>playerTime(forNodeTime:)\<close> reports (\<open>None\<close> when the node is not
  rendering). \<open>stop\<close> empties the queue and stops the node. The block that the looper
  dispatches on its serial queue is modelled as running where it is dispatched. Conversions
  of a \<open>Double\<close> to an integer truncate; the trap of a conversion that does not fit is
  outside the model.
\<close>

type_synonym pcm_buffer = "real list list"

record audio_file =
  fileLength :: int
  fileChannels :: nat
  fileSampleRate :: real
  fileRead :: "int \<Rightarrow> nat \<Rightarrow> pcm_buffer option"

datatype completion = ChainIfPlaying | ChainAlways

datatype scheduled_item =
    Segment int nat
  | Buffer pcm_buffer completion

record native_looper =
  audioFile :: "audio_file option"
  audioFormat :: "nat option"
  sampleRate_n :: real
  loopStartSec :: real
  loopEndSec :: real
  crossfadeMs :: real
  isPlaying_n :: bool
  engineRunning :: bool
  timePitchRate :: real
  timePitchPitch :: real
  playerQueue :: "scheduled_item list"
  playerPlaying :: bool
  playerSampleTime :: "int option"

definition new_native_looper :: native_looper where
  "new_native_looper =
     \<lparr> audioFile = None, audioFormat = None, sampleRate_n = 44100, loopStartSec = 0,
       loopEndSec = 0, crossfadeMs = 8, isPlaying_n = False, engineRunning = True,
       timePitchRate = 1, timePitchPitch = 0, playerQueue = [], playerPlaying = False,
       playerSampleTime = None \<rparr>"

text \<open>The state after a successful load of the file; the result is its duration.\<close>

definition loadAudioFile :: "audio_file \<Rightarrow> native_looper \<Rightarrow> native_looper \<times> real" where
  "loadAudioFile file s =
     (let s1 = s\<lparr> audioFile := Some file, audioFormat := Some (fileChannels file),
                 sampleRate_n := fileSampleRate file \<rparr>
      in (s1, real_of_int (fileLength file) / sampleRate_n s1))"

subsection \<open>The player node\<close>

definition player_stop :: "native_looper \<Rightarrow> native_looper" where
  "player_stop s = s\<lparr> playerQueue := [], playerPlaying := False, playerSampleTime := None \<rparr>"

definition player_play :: "native_looper \<Rightarrow> native_looper" where
  "player_play s = s\<lparr> playerPlaying := True \<rparr>"

definition player_pause :: "native_looper \<Rightarrow> native_looper" where
  "player_pause s = s\<lparr> playerPlaying := False \<rparr>"

definition player_schedule :: "scheduled_item \<Rightarrow> native_looper \<Rightarrow> native_looper" where
  "player_schedule item s = s\<lparr> playerQueue := playerQueue s @ [item] \<rparr>"

subsection \<open>The crossfade buffer\<close>

definition readFrames :: "native_looper \<Rightarrow> audio_file \<Rightarrow> int \<Rightarrow> nat \<Rightarrow> pcm_buffer option" where
  "readFrames s file start count =
     (case audioFormat s of None \<Rightarrow> None | Some format \<Rightarrow> fileRead file start count)"

text \<open>The two gains of the inner loop at index \<open>i\<close> of \<open>cf\<close>: \<open>a * a\<close> and \<open>b * b\<close>.\<close>

definition fadePosition :: "nat \<Rightarrow> nat \<Rightarrow> real" where
  "fadePosition cf i = real i / real (max (cf - 1) 1)"

definition endGain :: "nat \<Rightarrow> nat \<Rightarrow> real" where
  "endGain cf i = (let a = cos (pi * (1 / 2) * fadePosition cf i) in a * a)"

definition startGain :: "nat \<Rightarrow> nat \<Rightarrow> real" where
  "startGain cf i = (let b = sin (pi * (1 / 2) * fadePosition cf i) in b * b)"

definition crossfadeChannel :: "nat \<Rightarrow> real list \<Rightarrow> real list \<Rightarrow> real list" where
  "crossfadeChannel cf endPtr startPtr =
     map (\<lambda>i. endPtr ! i * endGain cf i + startPtr ! i * startGain cf i) [0..<cf]"

definition makeCrossfadeBuffer ::
    "native_looper \<Rightarrow> audio_file \<Rightarrow> int \<Rightarrow> int \<Rightarrow> nat \<Rightarrow> pcm_buffer option" where
  "makeCrossfadeBuffer s file startFrame endFrame crossfadeFrames =
     (case audioFormat s of
        None \<Rightarrow> None
      | Some channels \<Rightarrow>
          let cf = crossfadeFrames
          in if cf \<le> 0 then None
             else
               let endStart = max (endFrame - int cf) 0
               in (case readFrames s file endStart cf of
                     None \<Rightarrow> None
                   | Some endBuf \<Rightarrow>
                       (case readFrames s file startFrame cf of
                          None \<Rightarrow> None
                        | Some startBuf \<Rightarrow>
                            Some (map (\<lambda>ch. crossfadeChannel cf (endBuf ! ch) (startBuf ! ch))
                                      [0..<channels]))))"

subsection \<open>Methods\<close>

text \<open>
  The locals of \<open>scheduleNextCycle\<close>: the crossfade length \<open>cfFrames\<close>, the first and last
  frame of the loop region, \<open>totalFrames\<close> and \<open>mainFrames\<close>.
\<close>

definition cfFrames :: "native_looper \<Rightarrow> nat" where
  "cfFrames s = nat (max 1 (trunc ((crossfadeMs s / 1000) * sampleRate_n s)))"

definition loopStartFrame :: "native_looper \<Rightarrow> int" where
  "loopStartFrame s = trunc (loopStartSec s * sampleRate_n s)"

definition loopEndFrame :: "native_looper \<Rightarrow> int" where
  "loopEndFrame s = trunc (loopEndSec s * sampleRate_n s)"

definition totalFrames :: "native_looper \<Rightarrow> int" where
  "totalFrames s = loopEndFrame s - loopStartFrame s"

definition mainFrames :: "native_looper \<Rightarrow> nat" where
  "mainFrames s = nat (max 0 (totalFrames s - int (cfFrames s)))"

text \<open>
  \<open>if let xfade = makeCrossfadeBuffer(...) { player.scheduleBuffer(xfade, ...) }\<close> with the
  given completion handler.
\<close>

definition scheduleCrossfade ::
    "completion \<Rightarrow> pcm_buffer option \<Rightarrow> native_looper \<Rightarrow> native_looper" where
  "scheduleCrossfade handler made s =
     (case made of None \<Rightarrow> s | Some xfade \<Rightarrow> player_schedule (Buffer xfade handler) s)"

definition scheduleNextCycle :: "bool \<Rightarrow> native_looper \<Rightarrow> native_looper" where
  "scheduleNextCycle interrupt s =
     (case audioFile s of
        None \<Rightarrow> s
      | Some file \<Rightarrow>
          if totalFrames s \<le> 0 then s
          else
            let s1 = (if interrupt then player_stop s else s);
                s2 = (if 0 < mainFrames s
                      then player_schedule (Segment (loopStartFrame s) (mainFrames s)) s1
                      else s1)
            in scheduleCrossfade ChainIfPlaying
                 (makeCrossfadeBuffer s2 file (loopStartFrame s) (loopEndFrame s) (cfFrames s)) s2)"

text \<open>The two assignments of \<open>setLoopPoints\<close>.\<close>

definition withLoopPoints :: "real \<Rightarrow> real \<Rightarrow> native_looper \<Rightarrow> native_looper" where
  "withLoopPoints start end s =
     (let s1 = s\<lparr> loopStartSec := max 0 start \<rparr>
      in s1\<lparr> loopEndSec := max (loopStartSec s1) end \<rparr>)"

definition setLoopPoints_n :: "real \<Rightarrow> real \<Rightarrow> native_looper \<Rightarrow> native_looper" where
  "setLoopPoints_n start end s =
     (let s2 = withLoopPoints start end s
      in if isPlaying_n s2 then scheduleNextCycle True s2 else s2)"


definition setPitch :: "real \<Rightarrow> native_looper \<Rightarrow> native_looper" where
  "setPitch semitones s = s\<lparr> timePitchPitch := semitones * 100 \<rparr>"

definition play_n :: "native_looper \<Rightarrow> native_looper" where
  "play_n s =
     (if isPlaying_n s then s
      else
        let s1 = s\<lparr> isPlaying_n := True \<rparr>;
            s2 = (if \<not> engineRunning s1 then s1\<lparr> engineRunning := True \<rparr> else s1)
        in player_play (scheduleNextCycle True s2))"

definition pause_n :: "native_looper \<Rightarrow> native_looper" where
  "pause_n s = player_pause (s\<lparr> isPlaying_n := False \<rparr>)"






text \<open>After \<open>setLoopPoints\<close> the loop region starts at or after 0 and does not end before it starts.\<close>

definition native_inv :: "native_looper \<Rightarrow> bool" where
  "native_inv s \<longleftrightarrow> 0 \<le> loopStartSec s \<and> loopStartSec s \<le> loopEndSec s"


section \<open>Example states\<close>

text \<open>
  A processor that has received a one-channel buffer of six frames, the loop region
  \<open>[2, 4)\<close> and a seek to sample 4.5.
\<close>

definition proc_in_loop :: processor where
  "proc_in_loop =
     fold handleMessage
       [SET_BUFFER [[0, 1, 2, 3, 4, 5]], SET_LOOP_POINTS 2 4, SET_LOOPING True, PLAY, SEEK (9 / 2)]
       (new_processor 44100)"

text \<open>A processor whose loop region \<open>[-4, 0)\<close> ends at sample 0, with the cursor at 0.5.\<close>

definition proc_loop_end_zero :: processor where
  "proc_loop_end_zero =
     fold handleMessage
       [SET_BUFFER [[0, 1, 2, 3]], SET_LOOP_POINTS (- 4) 0, SET_LOOPING True, PLAY, SEEK (1 / 2)]
       (new_processor 44100)"

text \<open>A processor playing a one-channel buffer of four frames backwards, at rate -1.\<close>

definition proc_reverse :: processor where
  "proc_reverse =
     fold handleMessage [SET_BUFFER [[1, 2, 3, 4]], PLAY, SET_PLAYBACK_RATE (- 1)]
       (new_processor 44100)"

text \<open>
  A buffer-scheduling looper with a ten-second buffer at 44100 Hz, both callbacks set, the
  loop region \<open>[2 s, 4 s]\<close> and looping enabled; the same after \<open>play\<close> at engine time 0;
  after the animation frame at 0.02 s; and after \<open>pause\<close> at 0.05 s.
\<close>

definition looper_loaded :: looper where
  "looper_loaded =
     setLooping True (setLoopPoints_w 2 4
       (setEndedCallback (setTimeUpdateCallback (loadAudio 10 44100 new_looper))))"

definition looper_playing :: looper where
  "looper_playing =
     looper_loaded\<lparr> isPlaying_w := True, schedulingActive := True, nextStartTime := 1 / 10,
       startTime := 1 / 10, pausedAt := Num 2,
       rafQueue := [(1, ScheduleBuffersAhead), (2, UpdateTime)], rafNext := 3,
       animationFrame := 2, emitted := [TimeUpdate (Num (19 / 10))] \<rparr>"

definition looper_scheduled :: looper where
  "looper_scheduled =
     looper_playing\<lparr>
       sources := [\<lparr> srcPlaybackRate = 1, srcStart = Some (1 / 10, Num 2, Num 2),
                     srcStopped = False, srcOnended = False, srcEndedFired = False \<rparr>],
       nextStartTime := 21 / 10,
       rafQueue := [(3, ScheduleBuffersAhead), (4, UpdateTime)], rafNext := 5,
       animationFrame := 4,
       emitted := [TimeUpdate (Num (19 / 10)), TimeUpdate (Num (48 / 25))] \<rparr>"

definition looper_paused :: looper where
  "looper_paused =
     looper_scheduled\<lparr> schedulingActive := False, pausedAt := Num (39 / 20),
       isPlaying_w := False, rafQueue := [(3, ScheduleBuffersAhead)] \<rparr>"


text \<open>
  A processor at the last frame of a one-channel buffer of four frames, looping disabled,
  and a buffer-scheduling looper with a ten-second buffer, both callbacks set, looping
  disabled.
\<close>

definition looper_straight :: looper where
  "looper_straight = setEndedCallback (setTimeUpdateCallback (loadAudio 10 44100 new_looper))"

text \<open>
  The same looper after \<open>play\<close> at engine time 0; after \<open>seek\<close> to 5 s at engine time 2 s,
  which stops the first source node and starts a second one for the remaining 5 s; and, from
  the playing state again, after \<open>pause\<close> at engine time 3 s.
\<close>

definition looper_started :: looper where
  "looper_started =
     looper_straight\<lparr> isPlaying_w := True, currentSource := Some 0,
       sources := [\<lparr> srcPlaybackRate = 1, srcStart = Some (0, Num 0, Num 10),
                     srcStopped = False, srcOnended = True, srcEndedFired = False \<rparr>],
       rafQueue := [(1, UpdateTime)], rafNext := 2, animationFrame := 1,
       emitted := [TimeUpdate (Num 0)] \<rparr>"

definition looper_sought :: looper where
  "looper_sought =
     looper_started\<lparr> currentSource := Some 1, startTime := 2, pausedAt := Num 5,
       sources := [\<lparr> srcPlaybackRate = 1, srcStart = Some (0, Num 0, Num 10),
                     srcStopped = True, srcOnended = True, srcEndedFired = False \<rparr>,
                   \<lparr> srcPlaybackRate = 1, srcStart = Some (0, Num 5, Num 5),
                     srcStopped = False, srcOnended = True, srcEndedFired = False \<rparr>],
       rafQueue := [(2, UpdateTime)], rafNext := 3, animationFrame := 2,
       emitted := [TimeUpdate (Num 0), TimeUpdate (Num 5)] \<rparr>"

definition looper_held :: looper where
  "looper_held =
     looper_started\<lparr> isPlaying_w := False, currentSource := None, pausedAt := Num 3,
       sources := [\<lparr> srcPlaybackRate = 1, srcStart = Some (0, Num 0, Num 10),
                     srcStopped = True, srcOnended = True, srcEndedFired = False \<rparr>],
       rafQueue := [] \<rparr>"

definition proc_at_end :: processor where
  "proc_at_end =
     fold handleMessage [SET_BUFFER [[1, 2, 3, 4]], PLAY, SEEK 3] (new_processor 44100)"

text \<open>
  A native looper that has loaded a silent ten-second mono file at 44100 Hz and the loop
  region \<open>[2 s, 4 s]\<close>; and the same looper playing, one second into its cycle.
\<close>

definition silent_file :: audio_file where
  "silent_file =
     \<lparr> fileLength = 441000, fileChannels = 1, fileSampleRate = 44100,
       fileRead = (\<lambda>start count. Some [replicate count 0]) \<rparr>"

definition native_loaded :: native_looper where
  "native_loaded = setLoopPoints_n 2 4 (fst (loadAudioFile silent_file new_native_looper))"

definition native_playing :: native_looper where
  "native_playing =
     native_loaded\<lparr> isPlaying_n := True, playerPlaying := True,
       playerQueue := [Segment 88200 87848, Buffer [replicate 352 0] ChainIfPlaying],
       playerSampleTime := Some 44100 \<rparr>"

text \<open>
  A native looper that has loaded a mono file of 100 frames whose frame \<open>i\<close> holds the
  value \<open>i\<close>.
\<close>

definition ramp_file :: audio_file where
  "ramp_file =
     \<lparr> fileLength = 100, fileChannels = 1, fileSampleRate = 1000,
       fileRead = (\<lambda>start count. Some [map (\<lambda>i. real_of_int start + real i) [0..<count]]) \<rparr>"

definition native_ramp :: native_looper where
  "native_ramp = fst (loadAudioFile ramp_file new_native_looper)"


section \<open>Properties of the sample-accurate loop processor\<close>

subsection \<open>The example states, evaluated\<close>

lemmas proc_defs = new_processor_def setBuffer_def proc_play_def proc_pause_def proc_seek_def
  proc_setLoopPoints_def numberOfChannels_def buffer_length_def

lemma proc_in_loop_eq: "proc_in_loop =
  \<lparr> sampleRate = 44100, isPlaying = True, isLooping = True, playbackRate = 1, volume = 1,
    loopStartSample = 2, loopEndSample = 4, currentSample = Num (9 / 2),
    audioBuffer = Some [[0, 1, 2, 3, 4, 5]], bufferChannels = 1, bufferLength = 6,
    crossfadeSamples = 44, posted = [] \<rparr>"
  by (simp add: proc_in_loop_def proc_defs)

lemma proc_loop_end_zero_eq: "proc_loop_end_zero =
  \<lparr> sampleRate = 44100, isPlaying = True, isLooping = True, playbackRate = 1, volume = 1,
    loopStartSample = - 4, loopEndSample = 0, currentSample = Num (1 / 2),
    audioBuffer = Some [[0, 1, 2, 3]], bufferChannels = 1, bufferLength = 4,
    crossfadeSamples = 44, posted = [] \<rparr>"
  by (simp add: proc_loop_end_zero_def proc_defs)

lemma proc_reverse_eq: "proc_reverse =
  \<lparr> sampleRate = 44100, isPlaying = True, isLooping = False, playbackRate = - 1, volume = 1,
    loopStartSample = 0, loopEndSample = 0, currentSample = Num 0,
    audioBuffer = Some [[1, 2, 3, 4]], bufferChannels = 1, bufferLength = 4,
    crossfadeSamples = 44, posted = [] \<rparr>"
  by (simp add: proc_reverse_def proc_defs)

lemma floor_neg_one: "\<lfloor>- 1 :: real\<rfloor> = - 1"
  by (simp add: floor_minus)

subsection \<open>Remainders\<close>

lemma rmod_bounds: "0 < y \<Longrightarrow> 0 \<le> rmod x y \<and> rmod x y < y"
  using floor_divide_lower [of y x] floor_divide_upper [of y x]
  by (simp add: rmod_def algebra_simps)

lemma rmod_small: "0 < y \<Longrightarrow> 0 \<le> x \<Longrightarrow> x < y \<Longrightarrow> rmod x y = x"
proof -
  assume y: "0 < y" and x0: "0 \<le> x" and xy: "x < y"
  have "\<lfloor>x / y\<rfloor> = 0" using y x0 xy by (simp add: floor_eq_iff)
  then show ?thesis by (simp add: rmod_def)
qed

lemma rmod_idem: "0 < y \<Longrightarrow> rmod (rmod x y) y = rmod x y"
  using rmod_bounds [of y x] rmod_small [of y "rmod x y"] by simp

lemma js_rem_nonneg: "0 \<le> x \<Longrightarrow> 0 < y \<Longrightarrow> js_rem (Num x) y = Num (rmod x y)"
  by (simp add: trunc_def rmod_def)

subsection \<open>The channel loop\<close>

lemma forChannels_length:
  "forChannels n f k out = Inr out' \<Longrightarrow>
     length out' = length out \<and> (\<forall>ch. length (out' ! ch) = length (out ! ch))"
proof (induction n arbitrary: out')
  case 0
  then show ?case by simp
next
  case (Suc n)
  from Suc.prems obtain mid v where mid: "forChannels n f k out = Inr mid"
    and out': "out' = mid[n := (mid ! n)[k := v]]"
    by (auto split: sum.splits)
  have "length (out' ! ch) = length (mid ! ch)" for ch
    unfolding out' by (cases "n < length mid") (simp_all add: nth_list_update list_update_beyond)
  with Suc.IH [OF mid] show ?case by (simp add: out')
qed

lemma forChannels_cell:
  "forChannels n f k out = Inr out' \<Longrightarrow> ch < n \<Longrightarrow> ch < length out \<Longrightarrow>
     k < length (out ! ch) \<Longrightarrow> f ch = Inr (out' ! ch ! k)"
proof (induction n arbitrary: out')
  case 0
  then show ?case by simp
next
  case (Suc n)
  from Suc.prems(1) obtain mid v where mid: "forChannels n f k out = Inr mid"
    and v: "f n = Inr v" and out': "out' = mid[n := (mid ! n)[k := v]]"
    by (auto split: sum.splits)
  from forChannels_length [OF mid] have len: "length mid = length out"
    "length (mid ! ch) = length (out ! ch)" by simp_all
  show ?case
  proof (cases "ch = n")
    case True
    then show ?thesis using v out' len Suc.prems by simp
  next
    case False
    with Suc.prems have "ch < n" by simp
    from Suc.IH [OF mid this Suc.prems(3,4)] show ?thesis
      using False out' by simp
  qed
qed

subsection \<open>The invariant and the absence of exceptions\<close>

lemma proc_inv_new: "proc_inv (new_processor sr)"
  by (simp add: proc_inv_def new_processor_def)

lemma proc_inv_handleMessage: "proc_inv s \<Longrightarrow> msg_ok m \<Longrightarrow> proc_inv (handleMessage m s)"
  by (cases m) (auto simp: proc_inv_def proc_defs split: option.splits)

lemma getInterpolatedSample_ok:
  assumes "proc_inv s" "ch < bufferChannels s"
  shows "\<exists>v. getInterpolatedSample s idx fraction ch = Inr v"
  using assms
  by (auto simp: getInterpolatedSample_def proc_inv_def getChannelData_def Let_def
      split: option.splits)

lemma forChannels_ok:
  "(\<And>ch. ch < n \<Longrightarrow> \<exists>v. f ch = Inr v) \<Longrightarrow> \<exists>out'. forChannels n f k out = Inr out'"
proof (induction n)
  case 0
  then show ?case by simp
next
  case (Suc n)
  from Suc.IH Suc.prems obtain mid where "forChannels n f k out = Inr mid" by force
  moreover from Suc.prems [of n] obtain v where "f n = Inr v" by auto
  ultimately show ?case by simp
qed

lemma scaled_ok: "\<exists>v. r = Inr v \<Longrightarrow> \<exists>v. scaled vol r = Inr v"
  by (auto simp: scaled_def)

lemma proc_inv_cursor: "proc_inv (s\<lparr> currentSample := c \<rparr>) = proc_inv s"
  by (simp add: proc_inv_def split: option.splits)

lemma processFrame_unfold:
  "processFrame cc k (s, out) =
     (if isLooping s \<and> 0 < loopEndSample s \<and>
         floor_ge (js_floor (currentSample s)) (loopEndSample s)
      then
        (case forChannels cc (\<lambda>channel. scaled (volume s)
                (getInterpolatedSample (s\<lparr> currentSample := wrapCursor s \<rparr>)
                   (js_floor (wrapCursor s))
                   (js_minus (wrapCursor s) (of_floor (js_floor (wrapCursor s)))) channel)) k out of
           Inl e \<Rightarrow> Inl e
         | Inr out' \<Rightarrow>
             Inr (s\<lparr> currentSample := js_plus (wrapCursor s) (Num (playbackRate s)) \<rparr>, out'))
      else if floor_lt (js_floor (currentSample s)) (real (bufferLength s)) then
        (case forChannels cc (\<lambda>channel. scaled (volume s)
                (getInterpolatedSample s (js_floor (currentSample s))
                   (js_minus (currentSample s) (of_floor (js_floor (currentSample s)))) channel))
                k out of
           Inl e \<Rightarrow> Inl e
         | Inr out' \<Rightarrow>
             Inr (s\<lparr> currentSample := js_plus (currentSample s) (Num (playbackRate s)) \<rparr>, out'))
      else
        (case forChannels cc (\<lambda>channel. Inr (Num 0)) k out of
           Inl e \<Rightarrow> Inl e
         | Inr out' \<Rightarrow>
             Inr (s\<lparr> currentSample := js_plus (currentSample s) (Num (playbackRate s)) \<rparr>, out')))"
  by (simp add: processFrame_def Let_def cong: sum.case_cong)

lemma processFrame_ok:
  assumes "proc_inv s" "cc \<le> bufferChannels s"
  shows "\<exists>c out'. processFrame cc k (s, out) = Inr (s\<lparr> currentSample := c \<rparr>, out')"
proof -
  let ?s1 = "s\<lparr> currentSample := wrapCursor s \<rparr>"
  have inv1: "proc_inv ?s1" using assms(1) by (simp add: proc_inv_cursor)
  have "\<exists>out'. forChannels cc (\<lambda>channel. scaled (volume s)
             (getInterpolatedSample ?s1 i f channel)) k out = Inr out'" for i f
    using getInterpolatedSample_ok [OF inv1] assms(2)
    by (intro forChannels_ok scaled_ok) simp
  then obtain x where x: "forChannels cc (\<lambda>channel. scaled (volume s)
      (getInterpolatedSample ?s1 (js_floor (wrapCursor s))
         (js_minus (wrapCursor s) (of_floor (js_floor (wrapCursor s)))) channel)) k out = Inr x"
    by blast
  have "\<exists>out'. forChannels cc (\<lambda>channel. scaled (volume s)
             (getInterpolatedSample s i f channel)) k out = Inr out'" for i f
    using getInterpolatedSample_ok [OF assms(1)] assms(2)
    by (intro forChannels_ok scaled_ok) simp
  then obtain y where y: "forChannels cc (\<lambda>channel. scaled (volume s)
      (getInterpolatedSample s (js_floor (currentSample s))
         (js_minus (currentSample s) (of_floor (js_floor (currentSample s)))) channel)) k out = Inr y"
    by blast
  have "\<exists>out'. forChannels cc (\<lambda>channel. Inr (Num 0)) k out = Inr out'"
    by (intro forChannels_ok) simp
  then obtain z where z: "forChannels cc (\<lambda>channel. Inr (Num 0)) k out = Inr z"
    by blast
  show ?thesis
    unfolding processFrame_unfold x y z by (simp; blast)
qed

lemma forSamples_ok:
  assumes "proc_inv s" "cc \<le> bufferChannels s"
  shows "\<exists>c out'. forSamples cc n (s, out) = Inr (s\<lparr> currentSample := c \<rparr>, out')"
proof (induction n)
  case 0
  have "s = s\<lparr> currentSample := currentSample s \<rparr>" by simp
  then show ?case by (metis forSamples.simps(1))
next
  case (Suc n)
  then obtain c mid where mid: "forSamples cc n (s, out) = Inr (s\<lparr> currentSample := c \<rparr>, mid)"
    by blast
  have "proc_inv (s\<lparr> currentSample := c \<rparr>)" "cc \<le> bufferChannels (s\<lparr> currentSample := c \<rparr>)"
    using assms by (simp_all add: proc_inv_cursor)
  from processFrame_ok [OF this, of n mid] mid show ?case by auto
qed

lemma process_ok:
  assumes "proc_inv s"
  shows "\<exists>s' out'. process s output = Inr (s', out', True)"
proof (cases "\<not> isPlaying s \<or> audioBuffer s = None \<or> length output = 0")
  case True
  then show ?thesis by (simp add: process_def)
next
  case False
  have "min (length output) (bufferChannels s) \<le> bufferChannels s" by simp
  from forSamples_ok [OF assms this, where n = "length (output ! 0)" and out = "output"]
  show ?thesis using False by (auto simp: process_def Let_def)
qed

lemma interpolation_guard:
  "audioBuffer s = None \<or> floor_ge idx (real (bufferLength s) - 1) \<Longrightarrow>
     getInterpolatedSample s idx fraction ch = Inr (Num 0)"
  by (auto simp: getInterpolatedSample_def split: option.splits)

lemma wf_buffer_nth: "wf_buffer b \<Longrightarrow> ch < length b \<Longrightarrow> length (b ! ch) = buffer_length b"
  by (simp add: wf_buffer_def list_all_length)

lemma reads_in_bounds:
  assumes "proc_inv s" "audioBuffer s = Some b" "ch < bufferChannels s"
    "\<not> floor_ge (Some i) (real (bufferLength s) - 1)"
  shows "\<exists>channelData. getChannelData b ch = Inr channelData \<and> i + 1 < int (length channelData) \<and>
     (0 \<le> i \<longrightarrow> arrayGet channelData (Some i) \<noteq> None \<and> arrayGet channelData (Some (i + 1)) \<noteq> None)"
proof -
  from assms(1,2) have wf: "wf_buffer b" and ch: "bufferChannels s = length b"
    and len: "bufferLength s = buffer_length b"
    by (simp_all add: proc_inv_def numberOfChannels_def)
  from wf_buffer_nth [OF wf] assms(3) ch have l: "length (b ! ch) = bufferLength s"
    by (simp add: len)
  from assms(4) have "real_of_int i < real (bufferLength s) - 1" by simp
  then have "i + 1 < int (bufferLength s)" by linarith
  with l assms(3) ch show ?thesis
    by (simp add: getChannelData_def numberOfChannels_def)
qed


subsection \<open>Wrapping at the loop end\<close>

lemma wrapCursor_value:
  assumes "currentSample s = Num c" "loopStartSample s < loopEndSample s"
    "loopEndSample s \<le> of_int \<lfloor>c\<rfloor>"
  shows "wrapCursor s =
    Num (loopStartSample s + rmod (c - loopEndSample s) (loopEndSample s - loopStartSample s))"
proof -
  have "of_int \<lfloor>c\<rfloor> \<le> c" by simp
  with assms(3) have "0 \<le> c - loopEndSample s" by linarith
  moreover have "0 < loopEndSample s - loopStartSample s" using assms(2) by simp
  ultimately show ?thesis
    using assms(1) by (simp add: wrapCursor_def Let_def js_rem_nonneg del: js_rem.simps)
qed

lemma processFrame_wrap:
  assumes "currentSample s = Num c" "isLooping s" "loopStartSample s < loopEndSample s"
    "0 < loopEndSample s" "loopEndSample s \<le> of_int \<lfloor>c\<rfloor>"
  shows "processFrame cc k (s, out) =
    (let nc = loopStartSample s + rmod (c - loopEndSample s) (loopEndSample s - loopStartSample s);
         s1 = s\<lparr> currentSample := Num nc \<rparr>
     in case forChannels cc (\<lambda>channel. scaled (volume s)
               (getInterpolatedSample s1 (Some \<lfloor>nc\<rfloor>) (Num (nc - of_int \<lfloor>nc\<rfloor>)) channel)) k out of
          Inl e \<Rightarrow> Inl e
        | Inr out' \<Rightarrow> Inr (s\<lparr> currentSample := Num (nc + playbackRate s) \<rparr>, out'))"
  using assms wrapCursor_value [OF assms(1,3,5)]
  by (simp add: processFrame_def Let_def split: sum.splits)

text \<open>
  Claim C1, with the guard of the code. When looping is enabled, the loop end is positive and
  above the loop start, and the integer part of the cursor \<open>c\<close> has reached the loop end, the
  frame wraps the cursor to \<open>nc = loopStart + ((c - loopEnd) mod loopLength)\<close>. This position
  lies in \<open>[loopStart, loopEnd)\<close> and keeps the overshoot:
  \<open>(nc - loopStart) mod loopLength = (c - loopEnd) mod loopLength\<close>. The sample written for
  the frame on every channel is the interpolation at \<open>nc\<close> scaled by the volume, and the
  frame leaves the cursor at \<open>nc + playbackRate\<close>. In a state that satisfies the invariant
  the frame is processed without an exception.
\<close>

theorem loop_wrap_preserves_overshoot:
  assumes "currentSample s = Num c" and "isLooping s"
    and "loopStartSample s < loopEndSample s" and "0 < loopEndSample s"
    and "loopEndSample s \<le> of_int \<lfloor>c\<rfloor>"
  shows "\<exists>nc. wrapCursor s = Num nc \<and>
      nc = loopStartSample s + rmod (c - loopEndSample s) (loopEndSample s - loopStartSample s) \<and>
      loopStartSample s \<le> nc \<and> nc < loopEndSample s \<and>
      rmod (nc - loopStartSample s) (loopEndSample s - loopStartSample s) =
        rmod (c - loopEndSample s) (loopEndSample s - loopStartSample s) \<and>
      (\<forall>cc k out s' out'. processFrame cc k (s, out) = Inr (s', out') \<longrightarrow>
         s' = s\<lparr> currentSample := Num (nc + playbackRate s) \<rparr> \<and>
         (\<forall>ch. ch < cc \<and> ch < length out \<and> k < length (out ! ch) \<longrightarrow>
            Inr (out' ! ch ! k) =
              scaled (volume s)
                (getInterpolatedSample (s\<lparr> currentSample := Num nc \<rparr>)
                   (Some \<lfloor>nc\<rfloor>) (Num (nc - of_int \<lfloor>nc\<rfloor>)) ch))) \<and>
      (\<forall>cc k out. proc_inv s \<and> cc \<le> bufferChannels s \<longrightarrow>
         (\<exists>s' out'. processFrame cc k (s, out) = Inr (s', out')))"
proof -
  define L where "L = loopEndSample s - loopStartSample s"
  define nc where "nc = loopStartSample s + rmod (c - loopEndSample s) L"
  have L: "0 < L" using assms(3) by (simp add: L_def)
  have w: "wrapCursor s = Num nc"
    using wrapCursor_value [OF assms(1,3,5)] by (simp add: nc_def L_def)
  have b: "loopStartSample s \<le> nc \<and> nc < loopEndSample s"
    using rmod_bounds [OF L, of "c - loopEndSample s"] by (simp add: nc_def L_def)
  have m: "rmod (nc - loopStartSample s) L = rmod (c - loopEndSample s) L"
    using rmod_idem [OF L] by (simp add: nc_def)
  have f: "s' = s\<lparr> currentSample := Num (nc + playbackRate s) \<rparr> \<and>
         (\<forall>ch. ch < cc \<and> ch < length out \<and> k < length (out ! ch) \<longrightarrow>
            Inr (out' ! ch ! k) =
              scaled (volume s)
                (getInterpolatedSample (s\<lparr> currentSample := Num nc \<rparr>)
                   (Some \<lfloor>nc\<rfloor>) (Num (nc - of_int \<lfloor>nc\<rfloor>)) ch))"
    if pf: "processFrame cc k (s, out) = Inr (s', out')" for cc k out s' out'
  proof -
    let ?f = "\<lambda>channel. scaled (volume s)
               (getInterpolatedSample (s\<lparr> currentSample := Num nc \<rparr>)
                  (Some \<lfloor>nc\<rfloor>) (Num (nc - of_int \<lfloor>nc\<rfloor>)) channel)"
    from pf processFrame_wrap [OF assms, of cc k out]
    have fc: "forChannels cc ?f k out = Inr out'"
      and s': "s' = s\<lparr> currentSample := Num (nc + playbackRate s) \<rparr>"
      by (auto simp: Let_def nc_def L_def split: sum.splits)
    from forChannels_cell [OF fc] s' show ?thesis by auto
  qed
  have t: "\<exists>s' out'. processFrame cc k (s, out) = Inr (s', out')"
    if "proc_inv s \<and> cc \<le> bufferChannels s" for cc k out
    using processFrame_ok [of s cc k out] that by blast
  from w b m f t show ?thesis unfolding nc_def L_def by blast
qed


theorem loop_wrap_preserves_overshoot_witness:
  "currentSample proc_in_loop = Num (9 / 2) \<and> isLooping proc_in_loop \<and>
   loopStartSample proc_in_loop < loopEndSample proc_in_loop \<and> 0 < loopEndSample proc_in_loop \<and>
   loopEndSample proc_in_loop \<le> of_int \<lfloor>9 / 2 :: real\<rfloor> \<and>
   wrapCursor proc_in_loop = Num (5 / 2) \<and>
   processFrame 1 0 (proc_in_loop, [[Num 0]]) =
     Inr (proc_in_loop\<lparr> currentSample := Num (7 / 2) \<rparr>, [[Num (5 / 2)]])"
proof -
  have h: "currentSample proc_in_loop = Num (9 / 2)" "isLooping proc_in_loop"
    "loopStartSample proc_in_loop < loopEndSample proc_in_loop" "0 < loopEndSample proc_in_loop"
    "loopEndSample proc_in_loop \<le> of_int \<lfloor>9 / 2 :: real\<rfloor>"
    by (simp_all add: proc_in_loop_eq)
  have r: "rmod (9 / 2 - 4) (4 - 2) = 1 / 2" by (simp add: rmod_def)
  from loop_wrap_preserves_overshoot [OF h] obtain nc where
    nc: "wrapCursor proc_in_loop = Num nc"
      "nc = loopStartSample proc_in_loop +
         rmod (9 / 2 - loopEndSample proc_in_loop)
           (loopEndSample proc_in_loop - loopStartSample proc_in_loop)"
    by blast
  have w: "wrapCursor proc_in_loop = Num (5 / 2)"
    using nc r by (simp add: proc_in_loop_eq)
  have p: "processFrame 1 0 (proc_in_loop, [[Num 0]]) =
     Inr (proc_in_loop\<lparr> currentSample := Num (7 / 2) \<rparr>, [[Num (5 / 2)]])"
    using w h
    by (simp add: processFrame_def Let_def scaled_def getInterpolatedSample_def getChannelData_def
        numberOfChannels_def proc_in_loop_eq)
  from h w p show ?thesis by simp
qed

text \<open>
  Claim C1 as stated, without the guard on the loop end, fails. With looping enabled, the
  loop region \<open>[-4, 0)\<close> and the cursor at 0.5, the loop end is above the loop start and the
  integer part of the cursor has reached it, and the wrapped position would be -3.5. The
  callback does not wrap, because the loop end is not positive: it plays the frame at 0.5
  (the sample 0.5) and moves the cursor on to 1.5, outside the loop region.
\<close>

theorem loop_wrap_needs_positive_end:
  "isLooping proc_loop_end_zero \<and>
   loopStartSample proc_loop_end_zero < loopEndSample proc_loop_end_zero \<and>
   currentSample proc_loop_end_zero = Num (1 / 2) \<and>
   loopEndSample proc_loop_end_zero \<le> of_int \<lfloor>1 / 2 :: real\<rfloor> \<and>
   wrapCursor proc_loop_end_zero = Num (- 7 / 2) \<and>
   process proc_loop_end_zero [[Num 0]] =
     Inr (proc_loop_end_zero\<lparr> currentSample := Num (3 / 2) \<rparr>, [[Num (1 / 2)]], True)"
  by (simp add: proc_loop_end_zero_eq wrapCursor_def process_def processFrame_def Let_def scaled_def
      getInterpolatedSample_def getChannelData_def numberOfChannels_def timeUpdate_def trunc_def)


lemma proc_inv_process:
  assumes "proc_inv s" "process s output = Inr (s', out', flag)"
  shows "proc_inv s'"
proof (cases "\<not> isPlaying s \<or> audioBuffer s = None \<or> length output = 0")
  case True
  with assms show ?thesis by (simp add: process_def)
next
  case False
  have "min (length output) (bufferChannels s) \<le> bufferChannels s" by simp
  from forSamples_ok [OF assms(1) this, where n = "length (output ! 0)" and out = "output"]
  obtain c mid where "forSamples (min (length output) (bufferChannels s)) (length (output ! 0))
      (s, output) = Inr (s\<lparr> currentSample := c \<rparr>, mid)" by blast
  with assms(2) False have "s' = timeUpdate (length (output ! 0)) (s\<lparr> currentSample := c \<rparr>)"
    by (auto simp: process_def Let_def)
  then show ?thesis
    using assms(1) by (simp add: timeUpdate_def proc_inv_def split: option.splits)
qed

subsection \<open>The callback never throws\<close>

text \<open>
  Claim C10, for read indices that are not negative. In every state that satisfies the
  invariant the block callback returns normally (no exception leaves it). When playback is
  not active or no buffer is loaded it returns the output block as it was. The interpolation
  returns 0 whenever the read index is at or past \<open>bufferLength - 1\<close> or no buffer is loaded.
  When it does read, both indices \<open>i\<close> and \<open>i + 1\<close> lie below the length of the channel
  data, for any index; they are in bounds when \<open>i\<close> is not negative.
\<close>

theorem process_never_throws:
  assumes "proc_inv s"
  shows "(\<exists>s' out'. process s output = Inr (s', out', True)) \<and>
    (\<not> isPlaying s \<or> audioBuffer s = None \<longrightarrow> process s output = Inr (s, output, True)) \<and>
    (\<forall>idx fraction ch.
       audioBuffer s = None \<or> floor_ge idx (real (bufferLength s) - 1) \<longrightarrow>
       getInterpolatedSample s idx fraction ch = Inr (Num 0)) \<and>
    (\<forall>b i ch.
       audioBuffer s = Some b \<and> ch < bufferChannels s \<and>
       \<not> floor_ge (Some i) (real (bufferLength s) - 1) \<longrightarrow>
       (\<exists>channelData. getChannelData b ch = Inr channelData \<and>
          i + 1 < int (length channelData) \<and>
          (0 \<le> i \<longrightarrow> arrayGet channelData (Some i) \<noteq> None \<and>
             arrayGet channelData (Some (i + 1)) \<noteq> None)))"
proof (intro conjI allI impI)
  show "\<exists>s' out'. process s output = Inr (s', out', True)"
    by (rule process_ok [OF assms])
next
  assume "\<not> isPlaying s \<or> audioBuffer s = None"
  then show "process s output = Inr (s, output, True)"
    by (auto simp: process_def)
next
  fix idx fraction ch
  assume "audioBuffer s = None \<or> floor_ge idx (real (bufferLength s) - 1)"
  then show "getInterpolatedSample s idx fraction ch = Inr (Num 0)"
    by (rule interpolation_guard)
next
  fix b i ch
  assume "audioBuffer s = Some b \<and> ch < bufferChannels s \<and>
       \<not> floor_ge (Some i) (real (bufferLength s) - 1)"
  then show "\<exists>channelData. getChannelData b ch = Inr channelData \<and>
          i + 1 < int (length channelData) \<and>
          (0 \<le> i \<longrightarrow> arrayGet channelData (Some i) \<noteq> None \<and>
             arrayGet channelData (Some (i + 1)) \<noteq> None)"
    using reads_in_bounds [OF assms] by blast
qed

theorem process_never_throws_witness:
  "proc_inv proc_in_loop \<and>
   process proc_in_loop [[Num 0]] =
     Inr (proc_in_loop\<lparr> currentSample := Num (7 / 2) \<rparr>, [[Num (5 / 2)]], True) \<and>
   process (proc_pause proc_in_loop) [[Num 7]] = Inr (proc_pause proc_in_loop, [[Num 7]], True) \<and>
   getInterpolatedSample proc_in_loop (Some 5) (Num (1 / 2)) 0 = Inr (Num 0) \<and>
   arrayGet [0, 1, 2, 3, 4, 5] (Some 4) = Some 4 \<and> arrayGet [0, 1, 2, 3, 4, 5] (Some 5) = Some 5"
proof -
  have i: "proc_inv proc_in_loop"
    by (simp add: proc_inv_def proc_in_loop_eq wf_buffer_def buffer_length_def numberOfChannels_def)
  have w: "wrapCursor proc_in_loop = Num (5 / 2)"
    by (simp add: wrapCursor_def proc_in_loop_eq trunc_def)
  have p: "process proc_in_loop [[Num 0]] =
     Inr (proc_in_loop\<lparr> currentSample := Num (7 / 2) \<rparr>, [[Num (5 / 2)]], True)"
    using w
    by (simp add: process_def processFrame_def Let_def scaled_def getInterpolatedSample_def
        getChannelData_def numberOfChannels_def timeUpdate_def proc_in_loop_eq)
  from process_never_throws [OF i, of "[[Num 7]]"]
  have q: "\<not> isPlaying proc_in_loop \<or> audioBuffer proc_in_loop = None \<longrightarrow>
      process proc_in_loop [[Num 7]] = Inr (proc_in_loop, [[Num 7]], True)"
    and g: "getInterpolatedSample proc_in_loop (Some 5) (Num (1 / 2)) 0 = Inr (Num 0)"
    by (simp_all add: proc_in_loop_eq)
  have r: "process (proc_pause proc_in_loop) [[Num 7]] =
      Inr (proc_pause proc_in_loop, [[Num 7]], True)"
    by (simp add: process_def proc_pause_def)
  from i p r g show ?thesis by simp
qed


text \<open>
  Claim C10 as stated, for any cursor value, fails below zero. A processor that plays at the
  rate -1 from sample 0 has the cursor at -1 in the second frame of its first block. The
  interpolation does not return early there, and reads index -1 of the channel data, out of
  range: the read gives \<open>undefined\<close>, which \<open>|| 0\<close> turns into 0. The callback still returns
  normally.
\<close>

theorem negative_cursor_reads_out_of_range:
  "forSamples 1 1 (proc_reverse, [[Num 9, Num 9]]) =
     Inr (proc_reverse\<lparr> currentSample := Num (- 1) \<rparr>, [[Num 1, Num 9]]) \<and>
   js_floor (Num (- 1)) = Some (- 1) \<and>
   \<not> floor_ge (Some (- 1)) (real (bufferLength proc_reverse) - 1) \<and>
   audioBuffer proc_reverse = Some [[1, 2, 3, 4]] \<and>
   getChannelData [[1, 2, 3, 4]] 0 = Inr [1, 2, 3, 4] \<and>
   arrayGet [1, 2, 3, 4] (Some (- 1)) = None \<and>
   process proc_reverse [[Num 9, Num 9]] =
     Inr (proc_reverse\<lparr> currentSample := Num (- 2),
            posted := [TIME_UPDATE (Num (- 2)) (Num (- 2 / 44100))] \<rparr>,
          [[Num 1, Num 0]], True)"
  by (simp add: proc_reverse_eq process_def processFrame_def Let_def scaled_def
      getInterpolatedSample_def getChannelData_def numberOfChannels_def timeUpdate_def
      numeral_2_eq_2 floor_neg_one)




subsection \<open>Frames past the end of the buffer\<close>

lemma forChannels_other:
  "forChannels n f k out = Inr out' \<Longrightarrow> k' \<noteq> k \<Longrightarrow> out' ! ch ! k' = out ! ch ! k'"
proof (induction n arbitrary: out')
  case 0
  then show ?case by simp
next
  case (Suc n)
  from Suc.prems(1) obtain mid v where mid: "forChannels n f k out = Inr mid"
    and out': "out' = mid[n := (mid ! n)[k := v]]"
    by (auto split: sum.splits)
  have "out' ! ch ! k' = mid ! ch ! k'"
    unfolding out' using Suc.prems(2)
    by (cases "n < length mid"; cases "ch = n") (simp_all add: list_update_beyond)
  with Suc.IH [OF mid Suc.prems(2)] show ?case by simp
qed

lemma forChannels_silence:
  "\<exists>out'. forChannels n (\<lambda>channel. Inr (Num 0)) k out = Inr out'"
  by (induction n) auto

lemma processFrame_past_end:
  assumes "\<not> isLooping s" "currentSample s = Num c" "real (bufferLength s) \<le> of_int \<lfloor>c\<rfloor>"
  shows "\<exists>out'. processFrame cc k (s, out) =
           Inr (s\<lparr> currentSample := Num (c + playbackRate s) \<rparr>, out') \<and>
         forChannels cc (\<lambda>channel. Inr (Num 0)) k out = Inr out'"
proof -
  obtain out' where o: "forChannels cc (\<lambda>channel. Inr (Num 0)) k out = Inr out'"
    using forChannels_silence by blast
  from assms(3) have "\<not> floor_lt (Some \<lfloor>c\<rfloor>) (real (bufferLength s))" by simp
  with assms(1,2) o show ?thesis
    by (simp add: processFrame_unfold)
qed

lemma forSamples_past_end:
  assumes "\<not> isLooping s1" "currentSample s1 = Num c" "real (bufferLength s1) \<le> of_int \<lfloor>c\<rfloor>"
    "0 \<le> playbackRate s1" "forSamples cc k0 sb = Inr (s1, out1)"
  shows "\<exists>out'. forSamples cc (k0 + m) sb =
           Inr (s1\<lparr> currentSample := Num (c + real m * playbackRate s1) \<rparr>, out') \<and>
         length out' = length out1 \<and> (\<forall>ch. length (out' ! ch) = length (out1 ! ch)) \<and>
         silentFrom cc k0 (k0 + m) out1 out'"
proof (induction m)
  case 0
  have "s1\<lparr> currentSample := Num c \<rparr> = s1" using assms(2) by simp
  then show ?case using assms(5) by (auto simp: silentFrom_def)
next
  case (Suc m)
  let ?s = "s1\<lparr> currentSample := Num (c + real m * playbackRate s1) \<rparr>"
  from Suc obtain mid where mid: "forSamples cc (k0 + m) sb = Inr (?s, mid)"
    and len: "length mid = length out1" "\<forall>ch. length (mid ! ch) = length (out1 ! ch)"
    and sil: "silentFrom cc k0 (k0 + m) out1 mid" by blast
  have "0 \<le> real m * playbackRate s1" using assms(4) by simp
  then have "\<lfloor>c\<rfloor> \<le> \<lfloor>c + real m * playbackRate s1\<rfloor>" by (intro floor_mono) simp
  with assms(3) have past: "real (bufferLength ?s) \<le> of_int \<lfloor>c + real m * playbackRate s1\<rfloor>"
    by simp
  from processFrame_past_end [of ?s "c + real m * playbackRate s1" cc "k0 + m" mid] assms(1) past
  obtain out' where pf: "processFrame cc (k0 + m) (?s, mid) =
      Inr (?s\<lparr> currentSample := Num (c + real m * playbackRate s1 + playbackRate ?s) \<rparr>, out')"
    and fc: "forChannels cc (\<lambda>channel. Inr (Num 0)) (k0 + m) mid = Inr out'"
    by auto
  have st: "?s\<lparr> currentSample := Num (c + real m * playbackRate s1 + playbackRate ?s) \<rparr> =
      s1\<lparr> currentSample := Num (c + real (Suc m) * playbackRate s1) \<rparr>"
    by (simp add: algebra_simps)
  from forChannels_length [OF fc] len have len': "length out' = length out1"
    "\<forall>ch. length (out' ! ch) = length (out1 ! ch)" by simp_all
  have "silentFrom cc k0 (k0 + Suc m) out1 out'"
    unfolding silentFrom_def
  proof (intro conjI allI impI)
    fix ch k
    assume a: "ch < cc \<and> ch < length out1 \<and> k0 \<le> k \<and> k < k0 + Suc m \<and> k < length (out1 ! ch)"
    show "out' ! ch ! k = Num 0"
    proof (cases "k = k0 + m")
      case True
      from a len have "ch < cc" "ch < length mid" "k0 + m < length (mid ! ch)"
        using True by simp_all
      from forChannels_cell [OF fc this] True show ?thesis by simp
    next
      case False
      with a have "k < k0 + m" by simp
      with a sil have "mid ! ch ! k = Num 0" by (simp add: silentFrom_def)
      with forChannels_other [OF fc False] show ?thesis by simp
    qed
  next
    fix ch k
    assume a: "k < k0 \<or> k0 + Suc m \<le> k"
    then have "k \<noteq> k0 + m" by auto
    from forChannels_other [OF fc this] have "out' ! ch ! k = mid ! ch ! k" .
    also from a sil have "mid ! ch ! k = out1 ! ch ! k" by (auto simp: silentFrom_def)
    finally show "out' ! ch ! k = out1 ! ch ! k" .
  qed
  with mid pf st len' show ?case by simp
qed

lemma proc_at_end_eq: "proc_at_end =
  \<lparr> sampleRate = 44100, isPlaying = True, isLooping = False, playbackRate = 1, volume = 1,
    loopStartSample = 0, loopEndSample = 0, currentSample = Num 3,
    audioBuffer = Some [[1, 2, 3, 4]], bufferChannels = 1, bufferLength = 4,
    crossfadeSamples = 44, posted = [] \<rparr>"
  by (simp add: proc_at_end_def proc_defs)

lemma forSamples_at_end:
  "forSamples 1 1 (proc_at_end, [[Num 9, Num 9, Num 9]]) =
     Inr (proc_at_end\<lparr> currentSample := Num 4 \<rparr>, [[Num 0, Num 9, Num 9]])"
  by (simp add: proc_at_end_eq processFrame_def Let_def scaled_def getInterpolatedSample_def)

lemma forSamples_silence_at_end:
  "forSamples 1 3 (proc_at_end, [[Num 9, Num 9, Num 9]]) =
     Inr (proc_at_end\<lparr> currentSample := Num 6 \<rparr>, [[Num 0, Num 0, Num 0]])"
  by (simp add: numeral_3_eq_3 proc_at_end_eq processFrame_def Let_def scaled_def
      getInterpolatedSample_def)


section \<open>Properties of the buffer-scheduling looper\<close>

subsection \<open>The example states, evaluated\<close>

lemmas looper_defs = new_looper_def loadAudio_def initialize_def setTimeUpdateCallback_def
  setEndedCallback_def setLoopPoints_w_def setLooping_def js_round_def

lemma looper_loaded_eq: "looper_loaded =
  new_looper\<lparr> audioContext := True, gainNode := Some 1, audioBuffer_w := Some 10,
    loopStart := 2, loopEnd := 4, onTimeUpdate := True, onEnded := True, isLooping_w := True,
    loopStartSample_w := 88200, loopEndSample_w := 176400, loopDurationSamples := 88200 \<rparr>"
  by (simp add: looper_loaded_def looper_defs Let_def)


subsection \<open>The scheduling loop\<close>

lemma afterSegments_0: "afterSegments s d 0 = s"
  by (simp add: afterSegments_def)

lemma createSource_None: "createSource s = (None, s') \<Longrightarrow> s' = s \<and> \<not> canCreateSource s"
  by (auto simp: createSource_def canCreateSource_def split: if_splits)

lemma createSource_Some:
  "createSource s = (Some i, s') \<Longrightarrow>
     canCreateSource s \<and>
     (startSource i (nextStartTime s') (Num (loopStart s')) (Num d) s')
       \<lparr> nextStartTime := nextStartTime s' + d \<rparr> = afterSegments s d 1"
  by (auto simp: createSource_def canCreateSource_def startSource_def afterSegments_def
      loopSource_def split: if_splits)

lemma canCreateSource_afterSegments: "canCreateSource (afterSegments s d k) = canCreateSource s"
  by (simp add: canCreateSource_def afterSegments_def)

lemma loopSource_shift: "loopSource (afterSegments s d 1) d j = loopSource s d (Suc j)"
  by (simp add: loopSource_def afterSegments_def algebra_simps)

lemma afterSegments_Suc: "afterSegments (afterSegments s d 1) d k = afterSegments s d (Suc k)"
proof -
  have "map (loopSource s d) [0..<Suc k] = loopSource s d 0 # map (loopSource s d \<circ> Suc) [0..<k]"
    by (simp only: upt_conv_Cons [of 0 "Suc k"] map_Suc_upt [symmetric] list.map map_map) simp?
  then show ?thesis
    by (simp add: afterSegments_def loopSource_shift [unfolded afterSegments_def] comp_def
        loopSource_def algebra_simps)
qed

lemma scheduleLoop_result:
  assumes "scheduleLoop now d s = Some s'"
  shows "\<exists>k. s' = afterSegments s d k \<and> \<not> nextStartTime s' < now + scheduleAheadTime s'"
proof (rule scheduleLoop.raw_induct
    [where P = "\<lambda>now d s s'. \<exists>k. s' = afterSegments s d k \<and>
                  \<not> nextStartTime s' < now + scheduleAheadTime s'", OF _ assms], goal_cases)
  case (1 f now d s y)
  show ?case
  proof (cases "nextStartTime s < now + scheduleAheadTime s")
    case False
    with 1(2) have "y = s" by simp
    with False show ?thesis using afterSegments_0 [of s d] by metis
  next
    case True
    obtain src s1 where cs: "createSource s = (src, s1)" by (cases "createSource s")
    show ?thesis
    proof (cases src)
      case None
      with cs have "s1 = s" using createSource_None by blast
      with 1(2) True cs None have "f now d s = Some y" by simp
      from 1(1) [OF this] show ?thesis .
    next
      case (Some i)
      from createSource_Some [of s i s1 d] cs Some
      have st: "(startSource i (nextStartTime s1) (Num (loopStart s1)) (Num d) s1)
         \<lparr> nextStartTime := nextStartTime s1 + d \<rparr> = afterSegments s d 1" by simp
      from 1(2) True cs Some st have "f now d (afterSegments s d 1) = Some y" by simp
      from 1(1) [OF this] obtain k where "y = afterSegments (afterSegments s d 1) d k"
        and h: "\<not> nextStartTime y < now + scheduleAheadTime y" by blast
      then have "y = afterSegments s d (Suc k)" by (simp only: afterSegments_Suc)
      with h show ?thesis by blast
    qed
  qed
qed

lemma scheduleLoop_filled:
  "\<not> nextStartTime s < now + scheduleAheadTime s \<Longrightarrow> scheduleLoop now d s = Some s"
  by (subst scheduleLoop.simps) simp

lemma scheduleLoop_step:
  assumes "nextStartTime s < now + scheduleAheadTime s" "canCreateSource s"
  shows "scheduleLoop now d s = scheduleLoop now d (afterSegments s d 1)"
proof -
  obtain src s1 where cs: "createSource s = (src, s1)" by (cases "createSource s")
  with assms(2) obtain i where i: "src = Some i"
    using createSource_None by (cases src) auto
  from createSource_Some [of s i s1 d] cs i
  have "(startSource i (nextStartTime s1) (Num (loopStart s1)) (Num d) s1)
         \<lparr> nextStartTime := nextStartTime s1 + d \<rparr> = afterSegments s d 1" by simp
  with assms(1) cs i show ?thesis
    by (subst scheduleLoop.simps) simp
qed

lemma scheduleLoop_terminates_aux:
  assumes "0 < d" "canCreateSource s"
    "now + scheduleAheadTime s - nextStartTime s \<le> real n * d"
  shows "\<exists>s'. scheduleLoop now d s = Some s'"
  using assms(2,3)
proof (induction n arbitrary: s)
  case 0
  then have "\<not> nextStartTime s < now + scheduleAheadTime s" by simp
  then show ?case using scheduleLoop_filled by blast
next
  case (Suc n)
  show ?case
  proof (cases "nextStartTime s < now + scheduleAheadTime s")
    case False
    then show ?thesis using scheduleLoop_filled by blast
  next
    case True
    let ?s1 = "afterSegments s d 1"
    have "now + scheduleAheadTime ?s1 - nextStartTime ?s1 \<le> real n * d"
      using Suc.prems(2) by (simp add: afterSegments_def algebra_simps)
    moreover have "canCreateSource ?s1"
      using Suc.prems(1) by (simp add: canCreateSource_afterSegments)
    ultimately obtain s' where "scheduleLoop now d ?s1 = Some s'"
      using Suc.IH by blast
    with scheduleLoop_step [OF True Suc.prems(1)] show ?thesis by simp
  qed
qed

lemma scheduleLoop_terminates:
  assumes "0 < d" "canCreateSource s"
  shows "\<exists>s'. scheduleLoop now d s = Some s'"
proof -
  define n where "n = nat \<lceil>(now + scheduleAheadTime s - nextStartTime s) / d\<rceil>"
  have "(now + scheduleAheadTime s - nextStartTime s) / d \<le> real n"
    unfolding n_def by linarith
  with assms(1) have "now + scheduleAheadTime s - nextStartTime s \<le> real n * d"
    by (simp add: pos_divide_le_eq)
  from scheduleLoop_terminates_aux [OF assms this] show ?thesis .
qed

lemma scheduleBuffersAhead_cases:
  "scheduleBuffersAhead now s = Some s' \<Longrightarrow>
     s' = s \<or>
     (\<exists>s1. scheduleLoop now (exactLoopDurationSeconds s) s = Some s1 \<and>
        (s' = s1 \<or> s' = snd (requestAnimationFrame ScheduleBuffersAhead s1)))"
  by (auto simp: scheduleBuffersAhead_def split: if_splits option.splits)

lemma afterSegments_sources:
  "length (sources (afterSegments s d k)) = length (sources s) + k"
  "nextStartTime (afterSegments s d k) = nextStartTime s + real k * d"
  "j < k \<Longrightarrow> srcStart (sources (afterSegments s d k) ! (length (sources s) + j)) =
     Some (nextStartTime s + real j * d, Num (loopStart s), Num d)"
  by (simp_all add: afterSegments_def loopSource_def nth_append)

lemma requestAnimationFrame_fields:
  "sources (snd (requestAnimationFrame cb s)) = sources s"
  "nextStartTime (snd (requestAnimationFrame cb s)) = nextStartTime s"
  by (simp_all add: requestAnimationFrame_def)

subsection \<open>Evaluation of the example run\<close>

lemma ceiling_neg_twentieth: "\<lceil>- (1 / 20) :: real\<rceil> = 0"
  by (rule ceiling_unique) simp_all

lemma play_looper_loaded: "play 0 looper_loaded = Some looper_playing"
  apply (simp add: ceiling_neg_twentieth play_def looper_loaded_eq new_looper_def startSampleAccurateLoop_def
      scheduleBuffersAhead_def scheduleLoop_filled requestAnimationFrame_def updateTime_def
      getCurrentTime_def Let_def looper_playing_def trunc_def)
  done


lemma looper_playing_eq: "looper_playing =
  new_looper\<lparr> audioContext := True, gainNode := Some 1, audioBuffer_w := Some 10,
    loopStart := 2, loopEnd := 4, onTimeUpdate := True, onEnded := True, isLooping_w := True,
    loopStartSample_w := 88200, loopEndSample_w := 176400, loopDurationSamples := 88200,
    isPlaying_w := True, schedulingActive := True, nextStartTime := 1 / 10,
    startTime := 1 / 10, pausedAt := Num 2,
    rafQueue := [(1, ScheduleBuffersAhead), (2, UpdateTime)], rafNext := 3,
    animationFrame := 2, emitted := [TimeUpdate (Num (19 / 10))] \<rparr>"
  by (simp add: looper_playing_def looper_loaded_eq)

lemma exactLoopDurationSeconds_playing: "exactLoopDurationSeconds looper_playing = 2"
  by (simp add: exactLoopDurationSeconds_def looper_playing_eq new_looper_def)

lemma scheduleLoop_playing:
  "scheduleLoop (1 / 50) 2 looper_playing = Some (afterSegments looper_playing 2 1)"
proof -
  have a: "nextStartTime looper_playing < 1 / 50 + scheduleAheadTime looper_playing"
    by (simp add: looper_playing_eq new_looper_def)
  have b: "canCreateSource looper_playing"
    by (simp add: canCreateSource_def looper_playing_eq new_looper_def)
  have c: "\<not> nextStartTime (afterSegments looper_playing 2 1)
      < 1 / 50 + scheduleAheadTime (afterSegments looper_playing 2 1)"
    by (simp add: afterSegments_def looper_playing_eq new_looper_def)
  show ?thesis
    using scheduleLoop_step [OF a b, of 2] scheduleLoop_filled [OF c, of 2] by simp
qed

lemma scheduleBuffersAhead_playing:
  "scheduleBuffersAhead (1 / 50) looper_playing =
     Some (looper_playing\<lparr>
       sources := [\<lparr> srcPlaybackRate = 1, srcStart = Some (1 / 10, Num 2, Num 2),
                     srcStopped = False, srcOnended = False, srcEndedFired = False \<rparr>],
       nextStartTime := 21 / 10,
       rafQueue := [(1, ScheduleBuffersAhead), (2, UpdateTime), (3, ScheduleBuffersAhead)],
       rafNext := 4 \<rparr>)"
  by (simp add: scheduleBuffersAhead_def exactLoopDurationSeconds_playing scheduleLoop_playing
      afterSegments_def loopSource_def requestAnimationFrame_def)
    (simp add: looper_playing_eq new_looper_def)

lemma floor_neg_3528: "\<lfloor>- (3528 :: real)\<rfloor> = - 3528"
  by (rule floor_unique) simp_all

lemma ceiling_neg_frac: "- 1 < x \<Longrightarrow> x \<le> 0 \<Longrightarrow> \<lceil>x :: real\<rceil> = 0"
  by (rule ceiling_unique) simp_all

lemma tick_looper_playing: "animationTick (1 / 50) looper_playing = Some looper_scheduled"
proof -
  have a: "scheduleBuffersAhead (1 / 50) (looper_playing\<lparr> rafQueue := [] \<rparr>) =
     Some (looper_playing\<lparr>
       sources := [\<lparr> srcPlaybackRate = 1, srcStart = Some (1 / 10, Num 2, Num 2),
                     srcStopped = False, srcOnended = False, srcEndedFired = False \<rparr>],
       nextStartTime := 21 / 10,
       rafQueue := [(3, ScheduleBuffersAhead)], rafNext := 4 \<rparr>)"
  proof -
    let ?p = "looper_playing\<lparr> rafQueue := [] \<rparr>"
    have d: "exactLoopDurationSeconds ?p = 2"
      by (simp add: exactLoopDurationSeconds_def looper_playing_eq new_looper_def)
    have a: "nextStartTime ?p < 1 / 50 + scheduleAheadTime ?p"
      by (simp add: looper_playing_eq new_looper_def)
    have b: "canCreateSource ?p"
      by (simp add: canCreateSource_def looper_playing_eq new_looper_def)
    have c: "\<not> nextStartTime (afterSegments ?p 2 1)
        < 1 / 50 + scheduleAheadTime (afterSegments ?p 2 1)"
      by (simp add: afterSegments_def looper_playing_eq new_looper_def)
    have "scheduleLoop (1 / 50) 2 ?p = Some (afterSegments ?p 2 1)"
      using scheduleLoop_step [OF a b, of 2] scheduleLoop_filled [OF c, of 2] by simp
    then show ?thesis
      by (simp add: scheduleBuffersAhead_def d afterSegments_def loopSource_def
          requestAnimationFrame_def)
        (simp add: looper_playing_eq new_looper_def)
  qed
  have q: "map snd (rafQueue looper_playing) = [ScheduleBuffersAhead, UpdateTime]"
    by (simp add: looper_playing_eq)
  show ?thesis
    by (simp add: animationTick_def q runCallback_def a)
      (simp add: looper_playing_eq new_looper_def updateTime_def getCurrentTime_def Let_def
        requestAnimationFrame_def looper_scheduled_def trunc_def floor_neg_3528
        ceiling_neg_frac)
qed

lemma pause_looper_scheduled: "pause (1 / 20) looper_scheduled = looper_paused"
  by (simp add: pause_def looper_scheduled_def looper_playing_eq new_looper_def Let_def
      stopAndClear_def getCurrentTime_def cancelAnimationFrame_def looper_paused_def trunc_def
      ceiling_neg_frac)

lemma tick_looper_paused:
  "animationTick (3 / 50) looper_paused = Some (looper_paused\<lparr> rafQueue := [] \<rparr>)"
proof -
  have q: "map snd (rafQueue looper_paused) = [ScheduleBuffersAhead]"
    "\<not> schedulingActive (looper_paused\<lparr> rafQueue := [] \<rparr>)"
    by (simp_all add: looper_paused_def)
  show ?thesis
    by (simp add: animationTick_def q runCallback_def scheduleBuffersAhead_def)
qed

lemma scheduleBuffersAhead_filled:
  "scheduleBuffersAhead 0 looper_playing =
     Some (looper_playing\<lparr>
       rafQueue := [(1, ScheduleBuffersAhead), (2, UpdateTime), (3, ScheduleBuffersAhead)],
       rafNext := 4 \<rparr>)"
proof -
  have "\<not> nextStartTime looper_playing < 0 + scheduleAheadTime looper_playing"
    by (simp add: looper_playing_eq new_looper_def)
  from scheduleLoop_filled [OF this]
  have f: "scheduleLoop 0 (exactLoopDurationSeconds looper_playing) looper_playing =
      Some looper_playing" .
  have g: "audioContext looper_playing" "schedulingActive looper_playing"
    "rafQueue looper_playing = [(1, ScheduleBuffersAhead), (2, UpdateTime)]"
    "rafNext looper_playing = 3"
    by (simp_all add: looper_playing_eq new_looper_def)
  show ?thesis
    by (simp add: scheduleBuffersAhead_def f g requestAnimationFrame_def)
qed

subsection \<open>Exact advance of the next start time\<close>

text \<open>
  Claim C2. The scheduling step returns whenever a source can be created and the segment
  duration is positive. Whenever it returns, the number \<open>k\<close> of source nodes it has added
  determines the new \<open>nextStartTime\<close>: it is the old one plus \<open>k\<close> times
  \<open>loopDurationSamples / (sampleRate * playbackRate)\<close>, and the \<open>j\<close>-th new segment starts
  \<open>j\<close> such durations after the old \<open>nextStartTime\<close>, at the loop start, for that duration.
  The engine time \<open>now\<close> decides how many segments are scheduled and does not enter the
  times.
\<close>

theorem schedule_advances_by_exact_duration:
  "(canCreateSource s \<and> 0 < exactLoopDurationSeconds s \<longrightarrow>
      (\<exists>s'. scheduleBuffersAhead now s = Some s')) \<and>
   (\<forall>s'. scheduleBuffersAhead now s = Some s' \<longrightarrow>
      (\<exists>k. length (sources s') = length (sources s) + k \<and>
         nextStartTime s' =
           nextStartTime s +
             real k * (loopDurationSamples s / (sampleRate_w s * playbackRate_w s)) \<and>
         (\<forall>j<k. srcStart (sources s' ! (length (sources s) + j)) =
            Some (nextStartTime s +
                    real j * (loopDurationSamples s / (sampleRate_w s * playbackRate_w s)),
                  Num (loopStart s),
                  Num (loopDurationSamples s / (sampleRate_w s * playbackRate_w s))))))"
proof (intro conjI allI impI)
  assume "canCreateSource s \<and> 0 < exactLoopDurationSeconds s"
  then obtain s1 where "scheduleLoop now (exactLoopDurationSeconds s) s = Some s1"
    using scheduleLoop_terminates by blast
  then show "\<exists>s'. scheduleBuffersAhead now s = Some s'"
    by (simp add: scheduleBuffersAhead_def)
next
  fix s'
  let ?d = "loopDurationSamples s / (sampleRate_w s * playbackRate_w s)"
  let ?Q = "\<lambda>s' k. length (sources s') = length (sources s) + k \<and>
         nextStartTime s' = nextStartTime s + real k * ?d \<and>
         (\<forall>j<k. srcStart (sources s' ! (length (sources s) + j)) =
            Some (nextStartTime s + real j * ?d, Num (loopStart s), Num ?d))"
  assume "scheduleBuffersAhead now s = Some s'"
  from scheduleBuffersAhead_cases [OF this] consider
    (same) "s' = s"
    | (loop) s1 where "scheduleLoop now (exactLoopDurationSeconds s) s = Some s1"
        "s' = s1 \<or> s' = snd (requestAnimationFrame ScheduleBuffersAhead s1)"
    by blast
  then show "\<exists>k. ?Q s' k"
  proof cases
    case same
    then have "?Q s' 0" by simp
    then show ?thesis by blast
  next
    case loop
    from scheduleLoop_result [OF loop(1)] obtain k where
      k: "s1 = afterSegments s (exactLoopDurationSeconds s) k" by blast
    have "?Q s1 k"
      unfolding k by (simp add: afterSegments_sources) (simp add: exactLoopDurationSeconds_def)
    with loop(2) have "?Q s' k"
      by (auto simp: requestAnimationFrame_fields)
    then show ?thesis by blast
  qed
qed

theorem schedule_advances_by_exact_duration_witness:
  "canCreateSource looper_playing \<and> 0 < exactLoopDurationSeconds looper_playing \<and>
   scheduleBuffersAhead (1 / 50) looper_playing =
     Some (looper_playing\<lparr>
       sources := [\<lparr> srcPlaybackRate = 1, srcStart = Some (1 / 10, Num 2, Num 2),
                     srcStopped = False, srcOnended = False, srcEndedFired = False \<rparr>],
       nextStartTime := 21 / 10,
       rafQueue := [(1, ScheduleBuffersAhead), (2, UpdateTime), (3, ScheduleBuffersAhead)],
       rafNext := 4 \<rparr>) \<and>
   (21 / 10 :: real) =
     nextStartTime looper_playing +
       real 1 * (loopDurationSamples looper_playing /
                   (sampleRate_w looper_playing * playbackRate_w looper_playing))"
proof -
  have c: "canCreateSource looper_playing \<and> 0 < exactLoopDurationSeconds looper_playing"
    by (simp add: canCreateSource_def exactLoopDurationSeconds_playing)
      (simp add: looper_playing_eq new_looper_def)
  from schedule_advances_by_exact_duration [of looper_playing "1 / 50"] c
  obtain s' where "scheduleBuffersAhead (1 / 50) looper_playing = Some s'" by blast
  with scheduleBuffersAhead_playing c show ?thesis
    by (simp add: looper_playing_eq new_looper_def)
qed

subsection \<open>A filled horizon\<close>

text \<open>
  Claim C3. When \<open>nextStartTime\<close> is at or beyond the engine time plus the look-ahead, the
  scheduling step returns, creates no source node and leaves \<open>nextStartTime\<close> as it is: the
  state is the same but for the registration of the step for the next animation frame. The
  step repeated at the same engine time again adds no segment.
\<close>

theorem schedule_noop_when_filled:
  assumes "now + scheduleAheadTime s \<le> nextStartTime s"
  shows "\<exists>s'. scheduleBuffersAhead now s = Some s' \<and>
      sources s' = sources s \<and> nextStartTime s' = nextStartTime s \<and>
      s'\<lparr> rafQueue := rafQueue s, rafNext := rafNext s \<rparr> = s \<and>
      (\<exists>s''. scheduleBuffersAhead now s' = Some s'' \<and>
         sources s'' = sources s \<and> nextStartTime s'' = nextStartTime s)"
proof -
  have step: "scheduleBuffersAhead now t =
      Some (if audioContext t \<and> schedulingActive t
            then snd (requestAnimationFrame ScheduleBuffersAhead t) else t)"
    if "now + scheduleAheadTime t \<le> nextStartTime t" for t
  proof -
    from that have "\<not> nextStartTime t < now + scheduleAheadTime t" by simp
    from scheduleLoop_filled [OF this] show ?thesis
      by (simp add: scheduleBuffersAhead_def)
  qed
  define s' where "s' = (if audioContext s \<and> schedulingActive s
            then snd (requestAnimationFrame ScheduleBuffersAhead s) else s)"
  have a: "scheduleBuffersAhead now s = Some s'"
    using step [OF assms] by (simp add: s'_def)
  have b: "sources s' = sources s" "nextStartTime s' = nextStartTime s"
    "scheduleAheadTime s' = scheduleAheadTime s"
    "s'\<lparr> rafQueue := rafQueue s, rafNext := rafNext s \<rparr> = s"
    by (simp_all add: s'_def requestAnimationFrame_def)
  from b assms have "now + scheduleAheadTime s' \<le> nextStartTime s'" by simp
  from step [OF this] obtain s'' where c: "scheduleBuffersAhead now s' = Some s''"
    and d: "s'' = s' \<or> s'' = snd (requestAnimationFrame ScheduleBuffersAhead s')"
    by (cases "audioContext s' \<and> schedulingActive s'") simp_all
  from d b have "sources s'' = sources s" "nextStartTime s'' = nextStartTime s"
    by (auto simp: requestAnimationFrame_fields)
  with a b c show ?thesis by blast
qed

theorem schedule_noop_when_filled_witness:
  "0 + scheduleAheadTime looper_playing \<le> nextStartTime looper_playing \<and>
   scheduleBuffersAhead 0 looper_playing =
     Some (looper_playing\<lparr>
       rafQueue := [(1, ScheduleBuffersAhead), (2, UpdateTime), (3, ScheduleBuffersAhead)],
       rafNext := 4 \<rparr>) \<and>
   sources looper_playing = [] \<and> nextStartTime looper_playing = 1 / 10"
proof -
  have h: "0 + scheduleAheadTime looper_playing \<le> nextStartTime looper_playing"
    by (simp add: looper_playing_eq new_looper_def)
  from schedule_noop_when_filled [OF h] obtain s' where
    t: "scheduleBuffersAhead 0 looper_playing = Some s'" "sources s' = sources looper_playing"
      "nextStartTime s' = nextStartTime looper_playing"
    by blast
  from t scheduleBuffersAhead_filled
  have "sources looper_playing = []" "nextStartTime looper_playing = 1 / 10"
    by (simp_all add: looper_playing_eq new_looper_def)
  with h scheduleBuffersAhead_filled show ?thesis by simp
qed

subsection \<open>Pausing\<close>

text \<open>
  Claim C4 on the example run: \<open>play\<close> at engine time 0 with looping enabled, the animation
  frame at 0.02 s, in which the scheduling step starts a segment at 0.1 s for 2 s, and
  \<open>pause\<close> at 0.05 s. The pause ends playing and scheduling, but \<open>stop\<close> is not called on
  the scheduled source node: \<open>pause\<close> stops \<open>currentSource\<close> and \<open>nextSource\<close>, and the
  scheduling loop keeps its nodes in a local variable only. The segment is still due to play
  from 0.1 s to 2.1 s. The next animation frame, at 0.06 s, runs the pending scheduling step,
  which schedules nothing more.
\<close>

theorem pause_leaves_loop_segment_scheduled:
  "play 0 looper_loaded = Some looper_playing \<and>
   animationTick (1 / 50) looper_playing = Some looper_scheduled \<and>
   pause (1 / 20) looper_scheduled = looper_paused \<and>
   \<not> isPlaying_w looper_paused \<and> \<not> schedulingActive looper_paused \<and>
   sources looper_paused =
     [\<lparr> srcPlaybackRate = 1, srcStart = Some (1 / 10, Num 2, Num 2),
        srcStopped = False, srcOnended = False, srcEndedFired = False \<rparr>] \<and>
   animationTick (3 / 50) looper_paused = Some (looper_paused\<lparr> rafQueue := [] \<rparr>)"
  by (simp add: play_looper_loaded tick_looper_playing pause_looper_scheduled tick_looper_paused)
    (simp add: looper_paused_def looper_scheduled_def)


subsection \<open>The end of non-looping playback\<close>

text \<open>
  The plain run: non-looping \<open>play\<close> starts one source node with an \<open>onended\<close> handler, and
  the \<open>ended\<close> event of that node emits one \<open>Ended\<close> notification, after which the reported
  time stays at 0.
\<close>

lemma play_straight:
  assumes "audioContext w" "audioBuffer_w w = Some d" "gainNode w \<noteq> None" "\<not> isLooping_w w"
  shows "\<exists>w1. play now w = Some w1 \<and> currentSource w1 = Some (length (sources w)) \<and>
     isPlaying_w w1 \<and> onEnded w1 = onEnded w \<and>
     sources w1 = sources w @
       [\<lparr> srcPlaybackRate = playbackRate_w w,
          srcStart = Some (0, pausedAt w, js_minus (Num d) (pausedAt w)),
          srcStopped = False, srcOnended = True, srcEndedFired = False \<rparr>]"
  using assms
  by (simp add: play_def createSource_def startSource_def updateTime_def
      requestAnimationFrame_def Let_def)

lemma fireEnded_once:
  assumes "src < length (sources w1)" "srcOnended (sources w1 ! src)"
    "\<not> srcEndedFired (sources w1 ! src)" "onEnded w1"
  shows "emitted (fireEnded src w1) = emitted w1 @ [Ended] \<and>
     \<not> isPlaying_w (fireEnded src w1) \<and>
     (\<forall>t. getCurrentTime t (fireEnded src w1) = Num 0) \<and>
     (\<forall>t. updateTime t (fireEnded src w1) = fireEnded src w1) \<and>
     fireEnded src (fireEnded src w1) = fireEnded src w1"
  using assms
  by (simp add: fireEnded_def onended_def Let_def getCurrentTime_def updateTime_def)

lemma looper_straight_eq: "looper_straight =
  new_looper\<lparr> audioContext := True, gainNode := Some 1, audioBuffer_w := Some 10,
    loopEnd := 10, onTimeUpdate := True, onEnded := True \<rparr>"
  by (simp add: looper_straight_def looper_defs Let_def)

lemma play_looper_straight: "play 0 looper_straight = Some looper_started"
  by (simp add: looper_started_def looper_straight_eq new_looper_def play_def createSource_def
      startSource_def updateTime_def requestAnimationFrame_def getCurrentTime_def Let_def)

lemma seek_looper_started: "seek_w 5 2 looper_started = Some looper_sought"
  by (simp add: looper_sought_def looper_started_def looper_straight_eq new_looper_def
      seek_w_def pause_def stopAndClear_def stopSource_def cancelAnimationFrame_def
      play_def createSource_def startSource_def updateTime_def requestAnimationFrame_def
      getCurrentTime_def Let_def)

lemma pause_looper_started: "pause 3 looper_started = looper_held"
  by (simp add: looper_held_def looper_started_def looper_straight_eq new_looper_def pause_def
      stopAndClear_def stopSource_def cancelAnimationFrame_def getCurrentTime_def Let_def)

text \<open>
  A pause in non-looping playback: \<open>pause\<close> at 3 s calls \<open>stop\<close> on the source node and
  records the position 3 s, but leaves the node's \<open>onended\<close> handler installed. The \<open>ended\<close>
  event of the stopped node then runs the handler: an \<open>Ended\<close> notification is emitted
  although playback was 7 s before the end of the asset, and the recorded position is reset
  to 0.
\<close>

lemma pause_then_ended_event:
  "pause 3 looper_started = looper_held \<and> pausedAt looper_held = Num 3 \<and>
   srcStopped (sources looper_held ! 0) \<and>
   emitted (fireEnded 0 looper_held) = [TimeUpdate (Num 0), Ended] \<and>
   pausedAt (fireEnded 0 looper_held) = Num 0"
  by (simp add: pause_looper_started)
    (simp add: looper_held_def looper_started_def looper_straight_eq new_looper_def
      fireEnded_def onended_def Let_def)

text \<open>
  The position reported at engine time 3 s after the seek to 5 s at 2 s: 6 s while the
  engine counts as playing, and 0 once the \<open>ended\<close> event of the stopped first node has run
  the handler.
\<close>

lemma reported_time_after_seek:
  "getCurrentTime 3 looper_sought = Num 6 \<and>
   getCurrentTime 3 (fireEnded 0 looper_sought) = Num 0"
  by (simp add: looper_sought_def looper_started_def looper_straight_eq new_looper_def
      fireEnded_def onended_def getCurrentTime_def Let_def)

text \<open>
  Claim C6 on the example run: with looping disabled, \<open>play\<close> at engine time 0 on a
  ten-second asset, then \<open>seek\<close> to 5 s at engine time 2 s. The seek pauses, which calls
  \<open>stop\<close> on the first source node without removing its \<open>onended\<close> handler, and plays again
  from 5 s on a second node, with a handler of its own. The \<open>ended\<close> event of the stopped
  first node runs its handler: an \<open>Ended\<close> notification is emitted 5 s before the end of the
  asset, playing is marked as over and the position is reset to 0, while the second node has
  not been stopped; the pending time-update step of the animation frame at 3 s emits nothing
  and registers nothing. When the second node reaches the end of the asset, its \<open>ended\<close>
  event emits \<open>Ended\<close> again: the run reaches the end of the asset once and emits two
  \<open>Ended\<close> notifications, not exactly one.
\<close>

theorem seek_then_end_emits_ended_twice:
  "play 0 looper_straight = Some looper_started \<and>
   seek_w 5 2 looper_started = Some looper_sought \<and>
   isPlaying_w looper_sought \<and> currentSource looper_sought = Some 1 \<and>
   pausedAt looper_sought = Num 5 \<and> startTime looper_sought = 2 \<and>
   srcStopped (sources looper_sought ! 0) \<and>
   emitted (fireEnded 0 looper_sought) = [TimeUpdate (Num 0), TimeUpdate (Num 5), Ended] \<and>
   \<not> isPlaying_w (fireEnded 0 looper_sought) \<and>
   pausedAt (fireEnded 0 looper_sought) = Num 0 \<and>
   \<not> srcStopped (sources (fireEnded 0 looper_sought) ! 1) \<and>
   animationTick 3 (fireEnded 0 looper_sought) =
     Some ((fireEnded 0 looper_sought)\<lparr> rafQueue := [] \<rparr>) \<and>
   emitted (fireEnded 1 (fireEnded 0 looper_sought)) =
     [TimeUpdate (Num 0), TimeUpdate (Num 5), Ended, Ended]"
  by (simp add: play_looper_straight seek_looper_started)
    (simp add: looper_sought_def looper_started_def looper_straight_eq new_looper_def
      fireEnded_def onended_def animationTick_def runCallback_def updateTime_def Let_def)


section \<open>Properties of the crossfading native looper\<close>

subsection \<open>The example states, evaluated\<close>

lemma native_loaded_fields:
  "audioFile native_loaded = Some silent_file" "audioFormat native_loaded = Some 1"
  "sampleRate_n native_loaded = 44100" "loopStartSec native_loaded = 2"
  "loopEndSec native_loaded = 4" "crossfadeMs native_loaded = 8"
  "isPlaying_n native_loaded = False" "playerQueue native_loaded = []"
  "timePitchRate native_loaded = 1" "playerSampleTime native_loaded = None"
  by (simp_all add: native_loaded_def setLoopPoints_n_def withLoopPoints_def loadAudioFile_def
      new_native_looper_def silent_file_def Let_def)



lemma native_ramp_fields:
  "audioFormat native_ramp = Some 1" "audioFile native_ramp = Some ramp_file"
  by (simp_all add: native_ramp_def loadAudioFile_def new_native_looper_def ramp_file_def)

lemma crossfade_ramp: "makeCrossfadeBuffer native_ramp ramp_file 0 10 2 = Some [[8, 1]]"
  by (simp add: makeCrossfadeBuffer_def readFrames_def native_ramp_fields ramp_file_def Let_def
      crossfadeChannel_def endGain_def startGain_def fadePosition_def numeral_2_eq_2)

lemma crossfade_silence: "crossfadeChannel n (replicate n 0) (replicate n 0) = replicate n 0"
  by (auto simp: crossfadeChannel_def intro!: nth_equalityI)

lemma play_native_loaded:
  "play_n native_loaded = native_playing\<lparr> playerSampleTime := None \<rparr>"
proof -
  define s2 where "s2 = native_loaded\<lparr> isPlaying_n := True \<rparr>"
  have e: "engineRunning native_loaded" "\<not> isPlaying_n native_loaded"
    by (simp_all add: native_loaded_def setLoopPoints_n_def withLoopPoints_def loadAudioFile_def
        new_native_looper_def Let_def)
  have p: "play_n native_loaded = player_play (scheduleNextCycle True s2)"
    using e by (simp add: play_n_def Let_def s2_def)
  have f: "audioFile s2 = Some silent_file" "loopStartFrame s2 = 88200"
    "loopEndFrame s2 = 176400" "totalFrames s2 = 88200" "cfFrames s2 = 352"
    by (simp_all add: s2_def totalFrames_def loopStartFrame_def loopEndFrame_def cfFrames_def
        native_loaded_fields trunc_def)
  have m: "mainFrames s2 = 87848"
    by (simp add: mainFrames_def f)
  have x: "makeCrossfadeBuffer s silent_file a b 352 = Some [replicate 352 0]"
    if "audioFormat s = Some (Suc 0)" for s a b
    using that
    by (simp add: makeCrossfadeBuffer_def readFrames_def silent_file_def Let_def crossfade_silence)
  have "scheduleNextCycle True s2 =
      s2\<lparr> playerQueue := [Segment 88200 87848, Buffer [replicate 352 0] ChainIfPlaying],
          playerPlaying := False, playerSampleTime := None \<rparr>"
    by (simp add: scheduleNextCycle_def f m Let_def)
      (simp add: player_stop_def player_schedule_def scheduleCrossfade_def x s2_def
        native_loaded_fields)
  then show ?thesis
    unfolding p by (simp add: player_play_def s2_def native_playing_def)
qed

subsection \<open>What is scheduled\<close>



lemma native_inv_new: "native_inv new_native_looper"
  by (simp add: native_inv_def new_native_looper_def)

lemma scheduleNextCycle_bounds:
  "loopStartSec (scheduleNextCycle i s) = loopStartSec s"
  "loopEndSec (scheduleNextCycle i s) = loopEndSec s"
  by (simp_all add: scheduleNextCycle_def Let_def player_stop_def player_schedule_def
      scheduleCrossfade_def split: option.splits)

lemma native_inv_setLoopPoints: "native_inv (setLoopPoints_n a b s)"
  by (simp add: native_inv_def setLoopPoints_n_def withLoopPoints_def Let_def
      scheduleNextCycle_bounds)










subsection \<open>The equal-power crossfade\<close>

lemma fadePosition_ends:
  "fadePosition cf 0 = 0" "2 \<le> cf \<Longrightarrow> fadePosition cf (cf - 1) = 1"
  "2 \<le> cf \<Longrightarrow> fadePosition cf i = real i / real (cf - 1)"
proof -
  show "fadePosition cf 0 = 0" by (simp add: fadePosition_def)
  assume "2 \<le> cf"
  then have m: "max (cf - 1) 1 = cf - 1" and p: "real (cf - 1) \<noteq> 0" by simp_all
  show "fadePosition cf (cf - 1) = 1" "fadePosition cf i = real i / real (cf - 1)"
    using p by (simp_all only: fadePosition_def m) simp
qed

lemma gains_sum: "endGain cf i + startGain cf i = 1"
  by (simp add: endGain_def startGain_def Let_def power2_eq_square [symmetric])

lemma gains_ends:
  "endGain cf 0 = 1" "startGain cf 0 = 0"
  "2 \<le> cf \<Longrightarrow> endGain cf (cf - 1) = 0" "2 \<le> cf \<Longrightarrow> startGain cf (cf - 1) = 1"
  by (simp_all add: endGain_def startGain_def Let_def fadePosition_ends)

lemma gains_formula:
  assumes "2 \<le> cf"
  shows "endGain cf i = (cos (pi * (real i / real (cf - 1)) / 2))\<^sup>2"
    "startGain cf i = (sin (pi * (real i / real (cf - 1)) / 2))\<^sup>2"
  using assms
  by (simp_all add: endGain_def startGain_def Let_def fadePosition_ends power2_eq_square
      algebra_simps)

lemma crossfadeChannel_nth:
  "i < cf \<Longrightarrow> crossfadeChannel cf e st ! i = e ! i * endGain cf i + st ! i * startGain cf i"
  "length (crossfadeChannel cf e st) = cf"
  by (simp_all add: crossfadeChannel_def)

text \<open>
  Claim C5. A crossfade buffer of \<open>N \<ge> 2\<close> frames is made from the two buffers read at the
  end and at the start of the loop region. On every channel and at every index \<open>i\<close>, with
  \<open>x = i / (N - 1)\<close>, \<open>out[i] = end[i] * cos\<^sup>2(\<pi> x / 2) + start[i] * sin\<^sup>2(\<pi> x / 2)\<close>; the
  two squares are the gains \<open>a * a\<close> and \<open>b * b\<close> of the code and sum to 1; and
  \<open>out[0] = end[0]\<close>, \<open>out[N - 1] = start[N - 1]\<close>.
\<close>

theorem crossfade_equal_power:
  assumes "2 \<le> N" and "makeCrossfadeBuffer s file startFrame endFrame N = Some out"
  shows "\<exists>channels endBuf startBuf.
     audioFormat s = Some channels \<and>
     readFrames s file (max (endFrame - int N) 0) N = Some endBuf \<and>
     readFrames s file startFrame N = Some startBuf \<and>
     length out = channels \<and>
     (\<forall>ch<channels. length (out ! ch) = N \<and>
        (\<forall>i<N. out ! ch ! i =
             endBuf ! ch ! i * (cos (pi * (real i / real (N - 1)) / 2))\<^sup>2 +
             startBuf ! ch ! i * (sin (pi * (real i / real (N - 1)) / 2))\<^sup>2 \<and>
           (cos (pi * (real i / real (N - 1)) / 2))\<^sup>2 = endGain N i \<and>
           (sin (pi * (real i / real (N - 1)) / 2))\<^sup>2 = startGain N i \<and>
           endGain N i + startGain N i = 1) \<and>
        out ! ch ! 0 = endBuf ! ch ! 0 \<and>
        out ! ch ! (N - 1) = startBuf ! ch ! (N - 1))"
proof -
  from assms(2) obtain channels endBuf startBuf where
    f: "audioFormat s = Some channels"
    and e: "readFrames s file (max (endFrame - int N) 0) N = Some endBuf"
    and st: "readFrames s file startFrame N = Some startBuf"
    and out: "out = map (\<lambda>ch. crossfadeChannel N (endBuf ! ch) (startBuf ! ch)) [0..<channels]"
    by (auto simp: makeCrossfadeBuffer_def Let_def split: option.splits if_splits)
  have N: "0 < N" "N - 1 < N" using assms(1) by simp_all
  have "length (out ! ch) = N \<and>
        (\<forall>i<N. out ! ch ! i =
             endBuf ! ch ! i * (cos (pi * (real i / real (N - 1)) / 2))\<^sup>2 +
             startBuf ! ch ! i * (sin (pi * (real i / real (N - 1)) / 2))\<^sup>2 \<and>
           (cos (pi * (real i / real (N - 1)) / 2))\<^sup>2 = endGain N i \<and>
           (sin (pi * (real i / real (N - 1)) / 2))\<^sup>2 = startGain N i \<and>
           endGain N i + startGain N i = 1) \<and>
        out ! ch ! 0 = endBuf ! ch ! 0 \<and>
        out ! ch ! (N - 1) = startBuf ! ch ! (N - 1)" if "ch < channels" for ch
  proof -
    from that have o: "out ! ch = crossfadeChannel N (endBuf ! ch) (startBuf ! ch)"
      by (simp add: out)
    show ?thesis
    proof (intro conjI allI impI)
      show "length (out ! ch) = N"
        unfolding o by (rule crossfadeChannel_nth(2))
    next
      fix i
      assume "i < N"
      then have "out ! ch ! i =
          endBuf ! ch ! i * endGain N i + startBuf ! ch ! i * startGain N i"
        unfolding o by (rule crossfadeChannel_nth(1))
      then show "out ! ch ! i =
             endBuf ! ch ! i * (cos (pi * (real i / real (N - 1)) / 2))\<^sup>2 +
             startBuf ! ch ! i * (sin (pi * (real i / real (N - 1)) / 2))\<^sup>2"
        by (simp only: gains_formula [OF assms(1)])
      show "(cos (pi * (real i / real (N - 1)) / 2))\<^sup>2 = endGain N i"
        by (simp only: gains_formula [OF assms(1)])
      show "(sin (pi * (real i / real (N - 1)) / 2))\<^sup>2 = startGain N i"
        by (simp only: gains_formula [OF assms(1)])
      show "endGain N i + startGain N i = 1" by (rule gains_sum)
    next
      show "out ! ch ! 0 = endBuf ! ch ! 0"
        unfolding o crossfadeChannel_nth(1) [OF N(1)] gains_ends(1,2) by simp
    next
      show "out ! ch ! (N - 1) = startBuf ! ch ! (N - 1)"
        unfolding o crossfadeChannel_nth(1) [OF N(2)] gains_ends(3,4) [OF assms(1)] by simp
    qed
  qed
  with f e st out show ?thesis by simp
qed

theorem crossfade_equal_power_witness:
  "(2 :: nat) \<le> 2 \<and> makeCrossfadeBuffer native_ramp ramp_file 0 10 2 = Some [[8, 1]] \<and>
   readFrames native_ramp ramp_file (max (10 - int 2) 0) 2 = Some [[8, 9]] \<and>
   readFrames native_ramp ramp_file 0 2 = Some [[0, 1]] \<and>
   endGain 2 0 = 1 \<and> startGain 2 0 = 0 \<and> endGain 2 1 = 0 \<and> startGain 2 1 = 1"
proof -
  have r: "readFrames native_ramp ramp_file (max (10 - int 2) 0) 2 = Some [[8, 9]]"
    "readFrames native_ramp ramp_file 0 2 = Some [[0, 1]]"
    by (simp_all add: readFrames_def native_ramp_fields ramp_file_def numeral_2_eq_2)
  from crossfade_equal_power [OF _ crossfade_ramp] obtain channels where
    c: "audioFormat native_ramp = Some channels"
    and a: "\<forall>ch<channels. \<forall>i<2. endGain 2 i + startGain 2 i = 1"
    by auto
  from c have "channels = 1" by (simp add: native_ramp_fields)
  with a have "\<forall>i<2. endGain 2 i + startGain 2 i = 1" by simp
  then have "endGain 2 0 + startGain 2 0 = 1" "endGain 2 1 + startGain 2 1 = 1"
    by simp_all
  moreover have "endGain 2 0 = 1" "startGain 2 1 = 1"
    by (simp_all add: endGain_def startGain_def fadePosition_def)
  ultimately show ?thesis using r crossfade_ramp by simp
qed

subsection \<open>Clamping of loop points and rate\<close>



subsection \<open>A change of the loop region while playing\<close>





section \<open>Seeking\<close>




end
